theory Spec2Isabelle
  imports Complex_Main "HOL-Library.Sublist" "HOL-Library.Product_Lexorder"
begin

section \<open>Weather alert system: risk scoring and alert derivation\<close>

text \<open>
  A shallow embedding of the decision logic of the backend services
  \<^verbatim>\<open>risk_calculator.py\<close>, \<^verbatim>\<open>alert_engine.py\<close>, \<^verbatim>\<open>earthquake_monitor.py\<close> and
  \<^verbatim>\<open>tsunami_monitor.py\<close>. Python floats are read as real numbers: every
  arithmetic operation is the exact one, so rounding error, overflow, infinities
  and NaN are outside the model. Exceptions are values of the type \<open>error\<close>.
\<close>

datatype error = ValueError

definition bind_result :: "error + 'a \<Rightarrow> ('a \<Rightarrow> error + 'b) \<Rightarrow> error + 'b" where
  "bind_result r f = (case r of Inl e \<Rightarrow> Inl e | Inr v \<Rightarrow> f v)"

subsection \<open>Python built-ins\<close>

text \<open>\<^verbatim>\<open>max(iterable)\<close> and \<^verbatim>\<open>min(iterable)\<close> raise ValueError on an empty iterable.\<close>

fun py_max :: "real list \<Rightarrow> error + real" where
  "py_max [] = Inl ValueError"
| "py_max (x # xs) = Inr (foldl max x xs)"

fun py_min :: "real list \<Rightarrow> error + real" where
  "py_min [] = Inl ValueError"
| "py_min (x # xs) = Inr (foldl min x xs)"

text \<open>\<^verbatim>\<open>int(x)\<close> of a float truncates towards zero.\<close>

definition py_int :: "real \<Rightarrow> int" where
  "py_int x = (if 0 \<le> x then \<lfloor>x\<rfloor> else \<lceil>x\<rceil>)"

text \<open>
  Rounding to the nearest integer, ties to the even neighbour, as \<^verbatim>\<open>round\<close> and the
  fixed-point format specifiers do on an exactly representable tie.
\<close>

definition round_half_even :: "real \<Rightarrow> int" where
  "round_half_even x =
     (let f = \<lfloor>x\<rfloor>; r = x - of_int f
      in if r < 1 / 2 then f
         else if 1 / 2 < r then f + 1
         else if even f then f else f + 1)"

text \<open>\<^verbatim>\<open>round(x, 1)\<close>: one decimal place.\<close>

definition py_round1 :: "real \<Rightarrow> real" where
  "py_round1 x = of_int (round_half_even (x * 10)) / 10"

subsection \<open>RiskCalculator\<close>

definition calculate_temperature_risk :: "real \<Rightarrow> real" where
  "calculate_temperature_risk temp =
     (if 15 \<le> temp \<and> temp \<le> 25 then 0
      else if temp > 25 then min 100 (((temp - 25) / 20) * 100)
      else min 100 (((15 - temp) / 20) * 100))"

definition calculate_precipitation_risk :: "real \<Rightarrow> real" where
  "calculate_precipitation_risk precip_mm = min 100 ((precip_mm / 100) * 100)"

definition calculate_wind_risk :: "real \<Rightarrow> real" where
  "calculate_wind_risk wind_speed_kmh =
     (if wind_speed_kmh < 30 then (wind_speed_kmh / 30) * 30
      else if wind_speed_kmh < 60 then 30 + ((wind_speed_kmh - 30) / 30) * 40
      else min 100 (70 + ((wind_speed_kmh - 60) / 40) * 30))"

definition calculate_humidity_risk :: "real \<Rightarrow> real \<Rightarrow> real" where
  "calculate_humidity_risk humidity temp =
     (if temp < 25 \<or> humidity < 60 then 0
      else min 100 (((humidity - 60) / 40) * 100))"

definition calculate_visibility_risk :: "real \<Rightarrow> real" where
  "calculate_visibility_risk visibility_km =
     (if visibility_km \<ge> 10 then 0
      else min 100 (((10 - visibility_km) / 10) * 100))"

definition calculate_risk_score :: "real \<Rightarrow> real \<Rightarrow> real \<Rightarrow> real \<Rightarrow> real \<Rightarrow> real" where
  "calculate_risk_score temperature precipitation wind_speed humidity visibility =
     (let temp_risk = calculate_temperature_risk temperature;
          precip_risk = calculate_precipitation_risk precipitation;
          wind_risk = calculate_wind_risk wind_speed;
          humidity_risk = calculate_humidity_risk humidity temperature;
          visibility_risk = calculate_visibility_risk visibility;
          risk_score = temp_risk * 0.30 + precip_risk * 0.25 + wind_risk * 0.25
                       + humidity_risk * 0.10 + visibility_risk * 0.10
      in min 100 (max 0 risk_score))"

subsection \<open>EarthquakeMonitor: distance, impact radius, severity\<close>

definition radians :: "real \<Rightarrow> real" where
  "radians deg = deg * pi / 180"

text \<open>
  The haversine formula. Over the reals the argument of the square root lies in \<open>[0, 1]\<close>,
  so \<^verbatim>\<open>asin\<close> is always defined; floating-point rounding is outside the model.
\<close>

definition calculate_distance :: "real \<Rightarrow> real \<Rightarrow> real \<Rightarrow> real \<Rightarrow> real" where
  "calculate_distance lat1 lon1 lat2 lon2 =
     (let lat1r = radians lat1; lon1r = radians lon1;
          lat2r = radians lat2; lon2r = radians lon2;
          dlat = lat2r - lat1r;
          dlon = lon2r - lon1r;
          a = (sin (dlat / 2))\<^sup>2 + cos lat1r * cos lat2r * (sin (dlon / 2))\<^sup>2;
          c = 2 * arcsin (sqrt a);
          r = 6371
      in c * r)"

definition get_impact_radius :: "real \<Rightarrow> real" where
  "get_impact_radius magnitude =
     (if magnitude \<ge> 8.0 then 1000
      else if magnitude \<ge> 7.0 then 500
      else if magnitude \<ge> 6.0 then 200
      else if magnitude \<ge> 5.0 then 100
      else 50)"

definition get_severity :: "real \<Rightarrow> real \<Rightarrow> string" where
  "get_severity magnitude distance_km =
     (let impact_radius = get_impact_radius magnitude
      in if magnitude \<ge> 7.0 \<and> distance_km < 100 then ''critical''
         else if magnitude \<ge> 6.0 \<and> distance_km < 50 then ''critical''
         else if magnitude \<ge> 6.5 \<and> distance_km < 200 then ''warning''
         else if magnitude \<ge> 5.5 \<and> distance_km < 100 then ''warning''
         else if distance_km < impact_radius then ''warning''
         else ''info'')"

subsection \<open>Data model of the alert engine\<close>

record datetime =
  year :: nat
  month :: nat
  day :: nat
  hour :: nat
  minute :: nat
  second :: nat
  microsecond :: nat

datatype AlertType = HEATWAVE | HEAVY_RAIN | STORM | COLD_WAVE | HIGH_HUMIDITY

datatype Severity = LOW | MODERATE | HIGH | SEVERE

datatype UserType = STUDENT | FARMER | TRAVELLER | DELIVERY_WORKER | GENERAL

record HourlyForecast =
  timestamp :: datetime
  temperature :: real
  feels_like :: real
  condition :: string
  icon :: string
  precipitation :: real
  humidity :: int
  wind_speed :: real

record CustomThresholds =
  heatwave_temp :: real
  heavy_rain_amount :: real
  high_wind_speed :: real
  cold_wave_temp :: real
  high_humidity :: real

text \<open>The field defaults of \<^verbatim>\<open>CustomThresholds()\<close>.\<close>

definition default_thresholds :: CustomThresholds where
  "default_thresholds =
     \<lparr>heatwave_temp = 35.0, heavy_rain_amount = 50.0, high_wind_speed = 60.0,
      cold_wave_temp = 5.0, high_humidity = 85.0\<rparr>"

text \<open>The fields \<^verbatim>\<open>id\<close> and \<^verbatim>\<open>type\<close> of the source are \<open>alert_id\<close> and \<open>alert_type\<close>.\<close>

record Alert =
  alert_id :: string
  alert_type :: AlertType
  severity :: Severity
  title :: string
  message :: string
  recommendations :: "string list"
  start_time :: "datetime option"
  end_time :: "datetime option"
  created_at :: datetime
  acknowledged :: bool

subsection \<open>The outside world: random identifiers and the wall clock\<close>

text \<open>
  \<^verbatim>\<open>uuid.uuid4()\<close> and \<^verbatim>\<open>datetime.now()\<close> read state that is no argument of the
  engine. The world holds what the k-th draw of a UUID and the k-th reading of the
  clock return, and counts the draws and readings made so far.
\<close>

record world =
  uuid_hex :: "nat \<Rightarrow> string"
  clock :: "nat \<Rightarrow> datetime"
  uuids_drawn :: nat
  clock_reads :: nat

text \<open>\<^verbatim>\<open>f"alert_{uuid.uuid4().hex[:8]}"\<close>\<close>

definition new_alert_id :: "world \<Rightarrow> string \<times> world" where
  "new_alert_id w =
     (''alert_'' @ take 8 (uuid_hex w (uuids_drawn w)), w\<lparr>uuids_drawn := Suc (uuids_drawn w)\<rparr>)"

definition datetime_now :: "world \<Rightarrow> datetime \<times> world" where
  "datetime_now w = (clock w (clock_reads w), w\<lparr>clock_reads := Suc (clock_reads w)\<rparr>)"

subsection \<open>Number formatting\<close>

definition digit_char :: "nat \<Rightarrow> char" where
  "digit_char d = ''0123456789'' ! d"

fun digits :: "nat \<Rightarrow> string" where
  "digits n =
     (if n < 10 then [digit_char n]
      else digits (n div 10) @ [digit_char (n mod 10)])"

declare digits.simps [simp del]

text \<open>\<^verbatim>\<open>str(i)\<close> of an integer.\<close>

definition str_int :: "int \<Rightarrow> string" where
  "str_int i = (if i < 0 then ''-'' @ digits (nat (- i)) else digits (nat i))"

text \<open>
  The format specifier \<^verbatim>\<open>:.nf\<close>: the value rounded to \<open>n\<close> decimals, ties to even,
  with the sign of the value before rounding.
\<close>

definition fmt_f :: "nat \<Rightarrow> real \<Rightarrow> string" where
  "fmt_f n x =
     (let m = nat (round_half_even (\<bar>x\<bar> * 10 ^ n));
          whole = digits (m div 10 ^ n);
          frac = digits (m mod 10 ^ n)
      in (if x < 0 then ''-'' else []) @ whole
         @ (if n = 0 then [] else ''.'' @ replicate (n - length frac) (CHR ''0'') @ frac))"

text \<open>The degree sign of the messages, as its two UTF-8 bytes.\<close>

definition degree_sign :: string where
  "degree_sign = [char_of (194 :: nat), char_of (176 :: nat)]"

subsection \<open>AlertEngine: severity ladders\<close>

definition get_heatwave_severity :: "real \<Rightarrow> Severity" where
  "get_heatwave_severity temp =
     (if temp > 42 then SEVERE else if temp > 38 then HIGH else MODERATE)"

definition get_rain_severity :: "real \<Rightarrow> Severity" where
  "get_rain_severity precip =
     (if precip > 150 then SEVERE else if precip > 100 then HIGH else MODERATE)"

definition get_wind_severity :: "real \<Rightarrow> Severity" where
  "get_wind_severity speed =
     (if speed > 100 then SEVERE else if speed > 80 then HIGH else MODERATE)"

definition get_cold_severity :: "real \<Rightarrow> Severity" where
  "get_cold_severity temp =
     (if temp < -5 then SEVERE else if temp < 0 then HIGH else MODERATE)"

subsection \<open>AlertEngine: the five detectors\<close>

text \<open>
  Every detector returns the alert it raises, if any, and the world after the
  identifier it drew and the clock readings it made (\<open>created_at\<close> is read by the
  field default when the \<open>Alert\<close> is built, after the arguments are evaluated).
  The leading underscore of the private method names is dropped.
\<close>

text \<open>The \<^verbatim>\<open>for item in forecast[:24]\<close> loop of the heatwave detector.\<close>

fun heatwave_scan :: "HourlyForecast list \<Rightarrow> real \<Rightarrow> HourlyForecast list \<Rightarrow> HourlyForecast list" where
  "heatwave_scan [] threshold high_temp_hours = high_temp_hours"
| "heatwave_scan (item # rest) threshold high_temp_hours =
     (if temperature item > threshold
      then (let h = hour (timestamp item)
            in if 10 \<le> h \<and> h \<le> 18
               then heatwave_scan rest threshold (high_temp_hours @ [item])
               else heatwave_scan rest threshold high_temp_hours)
      else heatwave_scan rest threshold high_temp_hours)"

text \<open>
  \<^verbatim>\<open>high_temp_hours[0]\<close> and \<^verbatim>\<open>high_temp_hours[-1]\<close> are read only under the guard
  \<^verbatim>\<open>len(high_temp_hours) >= 3\<close>, where they are the head and the last element.
\<close>

definition check_heatwave ::
  "world \<Rightarrow> HourlyForecast list \<Rightarrow> real \<Rightarrow> error + (Alert option \<times> world)" where
  "check_heatwave w forecast threshold =
     (let high_temp_hours = heatwave_scan (take 24 forecast) threshold []
      in if length high_temp_hours \<ge> 3
         then bind_result (py_max (map temperature high_temp_hours)) (\<lambda>max_temp.
                let sev = get_heatwave_severity max_temp;
                    (ident, w1) = new_alert_id w;
                    (created, w2) = datetime_now w1
                in Inr (Some \<lparr>alert_id = ident, alert_type = HEATWAVE, severity = sev,
                      title = ''Heatwave Alert'',
                      message = ''Temperature expected to reach '' @ fmt_f 1 max_temp
                        @ degree_sign @ ''C for '' @ str_int (int (length high_temp_hours))
                        @ '' hours'',
                      recommendations =
                        [''Avoid outdoor activities during peak hours (12 PM - 4 PM)'',
                         ''Stay hydrated and drink plenty of water'',
                         ''Use sunscreen and wear protective clothing'',
                         ''Check on elderly and vulnerable individuals''],
                      start_time = Some (timestamp (hd high_temp_hours)),
                      end_time = Some (timestamp (last high_temp_hours)),
                      created_at = created, acknowledged = False\<rparr>, w2))
         else Inr (None, w))"

definition check_heavy_rain ::
  "world \<Rightarrow> HourlyForecast list \<Rightarrow> real \<Rightarrow> error + (Alert option \<times> world)" where
  "check_heavy_rain w forecast threshold =
     (let total_precipitation = sum_list (map precipitation (take 8 forecast))
      in bind_result (py_max (map precipitation (take 8 forecast))) (\<lambda>max_intensity.
           if total_precipitation > threshold \<or> max_intensity > 10
           then let sev = get_rain_severity total_precipitation;
                    rainy_periods = filter (\<lambda>item. precipitation item > 0) (take 8 forecast);
                    (ident, w1) = new_alert_id w;
                    (created, w2) = datetime_now w1
                in Inr (Some \<lparr>alert_id = ident, alert_type = HEAVY_RAIN, severity = sev,
                      title = ''Heavy Rain Alert'',
                      message = ''Expected rainfall: '' @ fmt_f 1 total_precipitation
                        @ ''mm in next 24 hours'',
                      recommendations =
                        [''Carry an umbrella or raincoat'',
                         ''Allow extra time for commute'',
                         ''Avoid flood-prone areas'',
                         ''Check weather updates regularly''],
                      start_time =
                        (if rainy_periods \<noteq> [] then Some (timestamp (hd rainy_periods)) else None),
                      end_time =
                        (if rainy_periods \<noteq> [] then Some (timestamp (last rainy_periods)) else None),
                      created_at = created, acknowledged = False\<rparr>, w2)
           else Inr (None, w)))"

text \<open>
  The \<^verbatim>\<open>for item in forecast[:8]\<close> loop of the storm detector; a period is a pair of
  its time (\<open>None\<close> for the literal \<^verbatim>\<open>"current"\<close>) and its wind speed.
\<close>

fun storm_scan ::
  "HourlyForecast list \<Rightarrow> real \<Rightarrow> (datetime option \<times> real) list \<Rightarrow> (datetime option \<times> real) list" where
  "storm_scan [] threshold high_wind_periods = high_wind_periods"
| "storm_scan (item # rest) threshold high_wind_periods =
     (if wind_speed item > threshold
      then storm_scan rest threshold
             (high_wind_periods @ [(Some (timestamp item), wind_speed item)])
      else storm_scan rest threshold high_wind_periods)"

definition check_storm ::
  "world \<Rightarrow> HourlyForecast list \<Rightarrow> real \<Rightarrow> real \<Rightarrow> error + (Alert option \<times> world)" where
  "check_storm w forecast current_wind threshold =
     (let high_wind_periods0 = (if current_wind > threshold then [(None, current_wind)] else []);
          high_wind_periods = storm_scan (take 8 forecast) threshold high_wind_periods0
      in if high_wind_periods \<noteq> []
         then bind_result (py_max (map snd high_wind_periods)) (\<lambda>max_wind.
                let sev = get_wind_severity max_wind;
                    (ident, w1) = new_alert_id w;
                    (now, w2) = datetime_now w1;
                    (created, w3) = datetime_now w2
                in Inr (Some \<lparr>alert_id = ident, alert_type = STORM, severity = sev,
                      title = ''High Wind / Storm Alert'',
                      message = ''Wind speeds expected to reach '' @ fmt_f 1 max_wind @ '' km/h'',
                      recommendations =
                        [''Stay indoors if possible'',
                         ''Secure loose objects outdoors'',
                         ''Avoid areas with trees and power lines'',
                         ''Postpone outdoor activities''],
                      start_time = Some now,
                      end_time = None,
                      created_at = created, acknowledged = False\<rparr>, w3))
         else Inr (None, w))"

definition check_cold_wave ::
  "world \<Rightarrow> HourlyForecast list \<Rightarrow> real \<Rightarrow> error + (Alert option \<times> world)" where
  "check_cold_wave w forecast threshold =
     (let cold_hours = filter (\<lambda>item. temperature item < threshold) (take 24 forecast)
      in if length cold_hours \<ge> 3
         then bind_result (py_min (map temperature cold_hours)) (\<lambda>min_temp.
                let sev = get_cold_severity min_temp;
                    (ident, w1) = new_alert_id w;
                    (created, w2) = datetime_now w1
                in Inr (Some \<lparr>alert_id = ident, alert_type = COLD_WAVE, severity = sev,
                      title = ''Cold Wave Alert'',
                      message = ''Temperature expected to drop to '' @ fmt_f 1 min_temp
                        @ degree_sign @ ''C for '' @ str_int (int (length cold_hours))
                        @ '' hours'',
                      recommendations =
                        [''Wear warm clothing in layers'',
                         ''Protect exposed skin'',
                         ''Check heating systems'',
                         ''Be aware of frost and ice''],
                      start_time = Some (timestamp (hd cold_hours)),
                      end_time = Some (timestamp (last cold_hours)),
                      created_at = created, acknowledged = False\<rparr>, w2))
         else Inr (None, w))"

definition check_high_humidity ::
  "world \<Rightarrow> real \<Rightarrow> real \<Rightarrow> real \<Rightarrow> error + (Alert option \<times> world)" where
  "check_high_humidity w temp humid threshold =
     (if humid > threshold
      then let heat_index = temp + (humid - 60) * 0.1;
               (ident, w1) = new_alert_id w;
               (now, w2) = datetime_now w1;
               (created, w3) = datetime_now w2
           in Inr (Some \<lparr>alert_id = ident, alert_type = HIGH_HUMIDITY, severity = MODERATE,
                 title = ''High Humidity Alert'',
                 message = ''Humidity at '' @ fmt_f 0 humid @ ''% with temperature ''
                   @ fmt_f 1 temp @ degree_sign @ ''C'',
                 recommendations =
                   [''Stay in air-conditioned spaces'',
                    ''Drink plenty of fluids'',
                    ''Limit strenuous outdoor activities'',
                    ''Watch for signs of heat exhaustion''],
                 start_time = Some now,
                 end_time = None,
                 created_at = created, acknowledged = False\<rparr>, w3)
      else Inr (None, w))"

subsection \<open>AlertEngine: personalization and prioritization\<close>

text \<open>\<^verbatim>\<open>UserType(user_type)\<close>: the enumeration member with that value, or ValueError.\<close>

definition UserType_of_value :: "string \<Rightarrow> error + UserType" where
  "UserType_of_value s =
     (if s = ''STUDENT'' then Inr STUDENT
      else if s = ''FARMER'' then Inr FARMER
      else if s = ''TRAVELLER'' then Inr TRAVELLER
      else if s = ''DELIVERY_WORKER'' then Inr DELIVERY_WORKER
      else if s = ''GENERAL'' then Inr GENERAL
      else Inl ValueError)"

text \<open>The nested dictionary \<^verbatim>\<open>user_recommendations\<close>; a missing key is \<open>None\<close>.\<close>

fun user_recommendations :: "UserType \<Rightarrow> (AlertType \<Rightarrow> string list option) option" where
  "user_recommendations STUDENT = Some (\<lambda>t. case t of
       HEATWAVE \<Rightarrow> Some [''Plan indoor study sessions'', ''Carry water bottle to school'']
     | HEAVY_RAIN \<Rightarrow> Some [''Allow extra time for commute'', ''Keep books and electronics protected'']
     | STORM \<Rightarrow> Some [''Stay in school building if weather worsens'', ''Inform parents about weather'']
     | COLD_WAVE \<Rightarrow> None
     | HIGH_HUMIDITY \<Rightarrow> Some [''Stay in air-conditioned classrooms'', ''Carry extra water to school''])"
| "user_recommendations FARMER = Some (\<lambda>t. case t of
       HEATWAVE \<Rightarrow> Some [''Work during early morning or late evening'', ''Ensure worker hydration'']
     | HEAVY_RAIN \<Rightarrow> Some [''Protect crops and equipment'', ''Check drainage systems'', ''Delay harvesting'']
     | STORM \<Rightarrow> Some [''Secure farm equipment'', ''Protect livestock'', ''Check barn structures'']
     | COLD_WAVE \<Rightarrow> Some [''Protect sensitive crops'', ''Ensure livestock shelter'', ''Check irrigation systems'']
     | HIGH_HUMIDITY \<Rightarrow> Some [''Monitor crop health for fungal diseases'', ''Ensure proper ventilation in storage''])"
| "user_recommendations TRAVELLER = Some (\<lambda>t. case t of
       HEATWAVE \<Rightarrow> Some [''Plan indoor activities'', ''Carry sufficient water'', ''Avoid peak sun hours'']
     | HEAVY_RAIN \<Rightarrow> Some [''Check road conditions'', ''Avoid flood-prone routes'', ''Have alternate plans'']
     | STORM \<Rightarrow> Some [''Postpone travel if possible'', ''Seek shelter'', ''Avoid coastal areas'']
     | COLD_WAVE \<Rightarrow> None
     | HIGH_HUMIDITY \<Rightarrow> Some [''Plan indoor sightseeing'', ''Stay hydrated during outdoor activities''])"
| "user_recommendations DELIVERY_WORKER = Some (\<lambda>t. case t of
       HEATWAVE \<Rightarrow> Some [''Schedule deliveries for cooler hours'', ''Keep vehicle AC functional'']
     | HEAVY_RAIN \<Rightarrow> Some [''Use waterproof packaging'', ''Plan safer routes'']
     | STORM \<Rightarrow> Some [''Delay deliveries if unsafe'', ''Stay in touch with dispatch'']
     | COLD_WAVE \<Rightarrow> None
     | HIGH_HUMIDITY \<Rightarrow> Some [''Take frequent breaks in AC'', ''Keep extra water in vehicle''])"
| "user_recommendations GENERAL = Some (\<lambda>t. case t of
       HEATWAVE \<Rightarrow> Some [''Stay indoors during peak hours'', ''Drink plenty of water'']
     | HEAVY_RAIN \<Rightarrow> Some [''Carry umbrella'', ''Avoid unnecessary travel'']
     | STORM \<Rightarrow> Some [''Stay indoors'', ''Secure outdoor items'']
     | COLD_WAVE \<Rightarrow> Some [''Wear warm clothing'', ''Keep heating systems ready'']
     | HIGH_HUMIDITY \<Rightarrow> Some [''Use air conditioning if available'', ''Stay hydrated''])"

text \<open>The body of \<^verbatim>\<open>for alert in alerts\<close>: extend the alert's recommendations in place.\<close>

definition personalize_alert :: "UserType \<Rightarrow> Alert \<Rightarrow> Alert" where
  "personalize_alert user_type_enum alert =
     (case user_recommendations user_type_enum of
        None \<Rightarrow> alert
      | Some by_type \<Rightarrow>
          (case by_type (alert_type alert) of
             None \<Rightarrow> alert
           | Some extra \<Rightarrow> alert\<lparr>recommendations := recommendations alert @ extra\<rparr>))"

text \<open>
  The ValueError of \<^verbatim>\<open>UserType(user_type)\<close> is raised before the loop starts and is
  caught by the \<^verbatim>\<open>except ValueError: pass\<close> handler.
\<close>

definition personalize_alerts :: "Alert list \<Rightarrow> string \<Rightarrow> Alert list" where
  "personalize_alerts alerts user_type =
     (case UserType_of_value user_type of
        Inl ValueError \<Rightarrow> alerts
      | Inr user_type_enum \<Rightarrow> map (personalize_alert user_type_enum) alerts)"

text \<open>The dictionary \<^verbatim>\<open>severity_order\<close> and the sort key \<^verbatim>\<open>severity_order.get(a.severity, 0)\<close>.\<close>

fun severity_order :: "Severity \<Rightarrow> nat option" where
  "severity_order SEVERE = Some 4"
| "severity_order HIGH = Some 3"
| "severity_order MODERATE = Some 2"
| "severity_order LOW = Some 1"

definition severity_key :: "Alert \<Rightarrow> nat" where
  "severity_key a = (case severity_order (severity a) of None \<Rightarrow> 0 | Some r \<Rightarrow> r)"

text \<open>
  \<^verbatim>\<open>sorted(xs, key=f, reverse=True)\<close>: the list is reversed, sorted by a stable
  ascending sort, and reversed again, so that equal keys keep their original order.
\<close>

definition sorted_reverse :: "('a \<Rightarrow> 'k::linorder) \<Rightarrow> 'a list \<Rightarrow> 'a list" where
  "sorted_reverse f xs = rev (sort_key f (rev xs))"

definition prioritize_alerts :: "Alert list \<Rightarrow> Alert list" where
  "prioritize_alerts alerts = sorted_reverse severity_key alerts"

subsection \<open>AlertEngine: check_alerts\<close>

text \<open>\<^verbatim>\<open>if alert: alerts.append(alert)\<close>\<close>

definition append_if :: "Alert list \<Rightarrow> Alert option \<Rightarrow> Alert list" where
  "append_if alerts found = (case found of None \<Rightarrow> alerts | Some a \<Rightarrow> alerts @ [a])"

text \<open>
  The first part of the body of \<^verbatim>\<open>check_alerts\<close>: the five detectors in the order of
  the source, each alert appended when there is one, before personalization and sorting.
\<close>

definition detect_alerts ::
  "world \<Rightarrow> HourlyForecast list \<Rightarrow> real \<Rightarrow> real \<Rightarrow> real \<Rightarrow> CustomThresholds
     \<Rightarrow> error + (Alert list \<times> world)" where
  "detect_alerts w hourly_forecast current_temp current_humidity current_wind thresholds =
     bind_result (check_heatwave w hourly_forecast (heatwave_temp thresholds))
       (\<lambda>(heatwave_alert, w1).
     bind_result (check_heavy_rain w1 hourly_forecast (heavy_rain_amount thresholds))
       (\<lambda>(heavy_rain_alert, w2).
     bind_result (check_storm w2 hourly_forecast current_wind (high_wind_speed thresholds))
       (\<lambda>(storm_alert, w3).
     bind_result (check_cold_wave w3 hourly_forecast (cold_wave_temp thresholds))
       (\<lambda>(cold_wave_alert, w4).
     bind_result (check_high_humidity w4 current_temp current_humidity (high_humidity thresholds))
       (\<lambda>(humidity_alert, w5).
     Inr (append_if (append_if (append_if (append_if (append_if []
            heatwave_alert) heavy_rain_alert) storm_alert) cold_wave_alert) humidity_alert,
          w5))))))"

definition check_alerts ::
  "world \<Rightarrow> HourlyForecast list \<Rightarrow> real \<Rightarrow> real \<Rightarrow> real \<Rightarrow> string \<Rightarrow> CustomThresholds option
     \<Rightarrow> error + (Alert list \<times> world)" where
  "check_alerts w hourly_forecast current_temp current_humidity current_wind user_type
       custom_thresholds =
     (let thresholds = (case custom_thresholds of None \<Rightarrow> default_thresholds | Some t \<Rightarrow> t)
      in bind_result
           (detect_alerts w hourly_forecast current_temp current_humidity current_wind thresholds)
           (\<lambda>(alerts, w').
              let personalized_alerts = personalize_alerts alerts user_type
              in Inr (prioritize_alerts personalized_alerts, w')))"

subsection \<open>Seismic data model\<close>

text \<open>
  The renderings that depend on the float representation and on the local time
  zone are parameters: \<open>float_str\<close> is \<^verbatim>\<open>str\<close> of a float inside an f-string, and
  \<open>iso_of_ms\<close> is \<^verbatim>\<open>datetime.fromtimestamp(ms / 1000).isoformat()\<close>.
\<close>

record runtime =
  float_str :: "real \<Rightarrow> string"
  iso_of_ms :: "int \<Rightarrow> string"

text \<open>
  An earthquake dictionary as \<^verbatim>\<open>fetch_earthquakes\<close> builds it, with the keys the
  two flows read; the key \<^verbatim>\<open>id\<close> is \<open>eq_id\<close> and \<^verbatim>\<open>time\<close> is \<open>time_ms\<close>.
\<close>

record Earthquake =
  eq_id :: string
  magnitude :: real
  place :: string
  time_ms :: int
  longitude :: real
  latitude :: real
  depth_km :: "real option"
  felt_reports :: "int option"
  tsunami :: int
  url :: string

text \<open>A tsunami event dictionary as \<^verbatim>\<open>fetch_tsunami_warnings\<close> builds it.\<close>

record TsunamiEvent =
  ts_id :: string
  trigger_earthquake_id :: string
  ts_magnitude :: real
  ts_location :: string
  ts_latitude :: real
  ts_longitude :: real
  ts_depth_km :: "real option"
  ts_event_time :: int
  tsunami_potential :: bool
  ts_source :: string
  ts_source_url :: string

record Location =
  description :: string
  lat :: real
  lon :: real

text \<open>The \<^verbatim>\<open>metadata\<close> dictionary of an alert: the earthquake flow's keys or the tsunami flow's.\<close>

datatype Metadata =
  EarthquakeMetadata (meta_magnitude: real) (meta_depth_km: "real option")
    (meta_felt_reports: "int option") (meta_tsunami_potential: bool)
| TsunamiMetadata (trigger_magnitude: real) (meta_depth_km: "real option")
    (estimated_arrival_minutes: "int option") (tsunami_speed_kmh: real) (is_coastal_area: bool)

text \<open>
  The alert dictionary of both flows; the keys \<^verbatim>\<open>id\<close>, \<^verbatim>\<open>type\<close>, \<^verbatim>\<open>severity\<close>,
  \<^verbatim>\<open>title\<close>, \<^verbatim>\<open>message\<close> and \<^verbatim>\<open>user_type\<close> carry the prefix \<open>sa_\<close>.
\<close>

record SeismicAlert =
  sa_id :: string
  sa_type :: string
  sa_severity :: string
  sa_title :: string
  sa_message :: string
  user_message :: string
  location :: Location
  distance_km :: real
  event_time :: string
  metadata :: Metadata
  source :: string
  source_url :: string
  sa_user_type :: string

subsection \<open>EarthquakeMonitor: messages and the earthquake flow\<close>

text \<open>The nested dictionary \<^verbatim>\<open>user_advice\<close> of \<^verbatim>\<open>generate_user_message\<close>.\<close>

definition earthquake_user_advice :: "string \<Rightarrow> (string \<Rightarrow> string option) option" where
  "earthquake_user_advice ut =
     (if ut = ''STUDENT'' then Some (\<lambda>sev.
        if sev = ''critical'' then Some '' TAKE COVER NOW! Drop, Cover, and Hold On. Stay away from windows. Follow your school's earthquake drill procedures.''
        else if sev = ''warning'' then Some '' Stay alert. If you feel shaking, drop under a desk and hold on. Inform teachers and stay calm.''
        else if sev = ''info'' then Some '' Be aware of this seismic activity. Review earthquake safety procedures with your school.''
        else None)
      else if ut = ''FARMER'' then Some (\<lambda>sev.
        if sev = ''critical'' then Some '' Secure livestock immediately. Move away from structures and equipment. Check for gas leaks and structural damage after shaking stops.''
        else if sev = ''warning'' then Some '' Monitor your animals for unusual behavior. Secure heavy equipment. Be prepared for aftershocks.''
        else if sev = ''info'' then Some '' Check farm structures for any damage. Ensure water sources are not contaminated.''
        else None)
      else if ut = ''TRAVELLER'' then Some (\<lambda>sev.
        if sev = ''critical'' then Some '' Seek shelter immediately in a sturdy building. Stay away from coastal areas if near the ocean (tsunami risk). Do not use elevators.''
        else if sev = ''warning'' then Some '' Avoid traveling to the affected area. Check with local authorities. Have an emergency plan ready.''
        else if sev = ''info'' then Some '' Monitor local news for updates. Be aware of potential travel disruptions in the region.''
        else None)
      else if ut = ''DELIVERY_WORKER'' then Some (\<lambda>sev.
        if sev = ''critical'' then Some '' Stop your vehicle safely away from buildings, bridges, and power lines. Stay inside until shaking stops.''
        else if sev = ''warning'' then Some '' Avoid routes near the affected area. Check road conditions before proceeding. Stay in communication with dispatch.''
        else if sev = ''info'' then Some '' Be aware of potential road damage or closures in the affected region.''
        else None)
      else if ut = ''GENERAL'' then Some (\<lambda>sev.
        if sev = ''critical'' then Some '' DROP, COVER, and HOLD ON! Get under sturdy furniture. Stay away from windows and outside walls. Do not run outside.''
        else if sev = ''warning'' then Some '' Be prepared for aftershocks. Have emergency supplies ready. Check on neighbors.''
        else if sev = ''info'' then Some '' Stay informed through official channels. Review your emergency preparedness plan.''
        else None)
      else None)"

definition generate_user_message ::
  "runtime \<Rightarrow> real \<Rightarrow> real \<Rightarrow> string \<Rightarrow> string \<Rightarrow> string \<Rightarrow> string" where
  "generate_user_message rt mag dist_km place_name ut sev =
     (let base_msg = ''Magnitude '' @ float_str rt mag @ '' earthquake occurred ''
                       @ fmt_f 0 dist_km @ ''km away near '' @ place_name @ ''.'';
          general = (case earthquake_user_advice ''GENERAL'' of
                       None \<Rightarrow> (\<lambda>sev. None)
                     | Some d \<Rightarrow> d);
          for_user = (case earthquake_user_advice ut of None \<Rightarrow> general | Some d \<Rightarrow> d);
          advice = (case for_user sev of None \<Rightarrow> [] | Some s \<Rightarrow> s)
      in base_msg @ advice)"

text \<open>The body of the loop of \<^verbatim>\<open>get_earthquakes_near_location\<close> for an event at \<open>distance\<close>.\<close>

definition earthquake_alert :: "runtime \<Rightarrow> string \<Rightarrow> real \<Rightarrow> Earthquake \<Rightarrow> real \<Rightarrow> SeismicAlert option" where
  "earthquake_alert rt ut max_distance_km eq distance =
     (let impact_radius = get_impact_radius (magnitude eq)
      in if distance \<le> max impact_radius max_distance_km
         then let sev = get_severity (magnitude eq) distance;
                  msg = generate_user_message rt (magnitude eq) distance (place eq) ut sev
              in Some \<lparr>sa_id = ''eq_'' @ eq_id eq,
                   sa_type = ''earthquake'',
                   sa_severity = sev,
                   sa_title = ''Magnitude '' @ float_str rt (magnitude eq) @ '' Earthquake'',
                   sa_message = ''Earthquake detected '' @ fmt_f 0 distance @ ''km from your location'',
                   user_message = msg,
                   location = \<lparr>description = place eq, lat = latitude eq, lon = longitude eq\<rparr>,
                   distance_km = py_round1 distance,
                   event_time = iso_of_ms rt (time_ms eq),
                   metadata = EarthquakeMetadata (magnitude eq) (depth_km eq) (felt_reports eq)
                                (tsunami eq \<noteq> 0),
                   source = ''USGS'',
                   source_url = url eq,
                   sa_user_type = ut\<rparr>
         else None)"

text \<open>
  The flow on the list of earthquakes that \<^verbatim>\<open>fetch_earthquakes\<close> returned; \<^verbatim>\<open>list.sort\<close>
  is a stable ascending sort.
\<close>

definition get_earthquakes_near_location ::
  "runtime \<Rightarrow> Earthquake list \<Rightarrow> real \<Rightarrow> real \<Rightarrow> string \<Rightarrow> real \<Rightarrow> SeismicAlert list" where
  "get_earthquakes_near_location rt earthquakes user_lat user_lon ut max_distance_km =
     (let relevant_alerts =
            List.map_filter
              (\<lambda>eq. earthquake_alert rt ut max_distance_km eq
                       (calculate_distance user_lat user_lon (latitude eq) (longitude eq)))
              earthquakes
      in sort_key distance_km relevant_alerts)"

subsection \<open>TsunamiMonitor\<close>

text \<open>The events that \<^verbatim>\<open>fetch_tsunami_warnings\<close> derives from the fetched earthquakes.\<close>

definition tsunami_events_of :: "Earthquake list \<Rightarrow> TsunamiEvent list" where
  "tsunami_events_of earthquakes =
     map (\<lambda>eq. \<lparr>ts_id = ''tsunami_'' @ eq_id eq,
                 trigger_earthquake_id = eq_id eq,
                 ts_magnitude = magnitude eq,
                 ts_location = place eq,
                 ts_latitude = latitude eq,
                 ts_longitude = longitude eq,
                 ts_depth_km = depth_km eq,
                 ts_event_time = time_ms eq,
                 tsunami_potential = True,
                 ts_source = ''USGS'',
                 ts_source_url = url eq\<rparr>)
         (filter (\<lambda>eq. tsunami eq = 1) earthquakes)"

definition is_coastal_location :: "real \<Rightarrow> real \<Rightarrow> bool" where
  "is_coastal_location la lo = True"

definition calculate_tsunami_severity :: "real \<Rightarrow> real \<Rightarrow> bool \<Rightarrow> string" where
  "calculate_tsunami_severity mag dist_km is_coastal =
     (if \<not> is_coastal then ''info''
      else if mag \<ge> 8.0 \<and> dist_km < 500 then ''critical''
      else if mag \<ge> 7.5 \<and> dist_km < 300 then ''critical''
      else if mag \<ge> 7.0 \<and> dist_km < 800 then ''warning''
      else if mag \<ge> 6.5 \<and> dist_km < 500 then ''warning''
      else ''info'')"

definition tsunami_user_advice :: "string \<Rightarrow> string option" where
  "tsunami_user_advice ut =
     (if ut = ''STUDENT'' then Some '' If at school, follow evacuation procedures. Move to upper floors or inland immediately.''
      else if ut = ''FARMER'' then Some '' Secure livestock and move to higher ground. Do not attempt to save equipment - prioritize safety.''
      else if ut = ''TRAVELLER'' then Some '' Leave coastal hotels immediately. Head inland or to high ground. Do not use elevators.''
      else if ut = ''DELIVERY_WORKER'' then Some '' Abandon deliveries. Drive inland immediately. Alert dispatch of your location.''
      else if ut = ''GENERAL'' then Some '' Take tsunami warnings seriously. Move quickly but calmly to safety.''
      else None)"

text \<open>
  \<^verbatim>\<open>if estimated_arrival_minutes:\<close> is the truth value of an optional integer: false
  for \<^verbatim>\<open>None\<close> and for \<^verbatim>\<open>0\<close>.
\<close>

definition truthy :: "int option \<Rightarrow> bool" where
  "truthy v = (case v of None \<Rightarrow> False | Some n \<Rightarrow> n \<noteq> 0)"

definition generate_tsunami_message ::
  "runtime \<Rightarrow> real \<Rightarrow> real \<Rightarrow> string \<Rightarrow> string \<Rightarrow> string \<Rightarrow> int option \<Rightarrow> string" where
  "generate_tsunami_message rt mag dist_km loc ut sev arrival =
     (let base_msg =
            (if truthy arrival
             then ''TSUNAMI WARNING: Magnitude '' @ float_str rt mag @ '' earthquake near '' @ loc
                    @ ''. Tsunami waves may arrive in approximately ''
                    @ (case arrival of None \<Rightarrow> ''None'' | Some n \<Rightarrow> str_int n)
                    @ '' minutes.''
             else ''TSUNAMI WARNING: Magnitude '' @ float_str rt mag @ '' earthquake near '' @ loc
                    @ '' ('' @ fmt_f 0 dist_km @ ''km away). Tsunami waves possible.'');
          action =
            (if sev = ''critical''
             then '' EVACUATE IMMEDIATELY to higher ground (at least 30m above sea level or 3km inland). Do not wait for official evacuation orders.''
             else if sev = ''warning''
             then '' Move to higher ground as a precaution. Stay away from beaches and coastal areas. Monitor official channels.''
             else '' Stay informed through official channels. Be prepared to evacuate if warning is upgraded.'');
          general = (case tsunami_user_advice ''GENERAL'' of None \<Rightarrow> [] | Some s \<Rightarrow> s);
          specific_advice = (case tsunami_user_advice ut of None \<Rightarrow> general | Some s \<Rightarrow> s)
      in base_msg @ action @ specific_advice)"

text \<open>The body of the loop of \<^verbatim>\<open>get_tsunami_alerts_near_location\<close> for an event at \<open>distance\<close>.\<close>

definition tsunami_alert ::
  "runtime \<Rightarrow> real \<Rightarrow> real \<Rightarrow> string \<Rightarrow> real \<Rightarrow> TsunamiEvent \<Rightarrow> real \<Rightarrow> SeismicAlert option" where
  "tsunami_alert rt user_lat user_lon ut max_distance_km event distance =
     (if distance \<le> max_distance_km
      then let is_coastal = is_coastal_location user_lat user_lon;
               sev = calculate_tsunami_severity (ts_magnitude event) distance is_coastal;
               speed = 800;
               arrival = py_int ((distance / speed) * 60);
               msg = generate_tsunami_message rt (ts_magnitude event) distance (ts_location event)
                       ut sev (if distance < 500 then Some arrival else None)
           in Some \<lparr>sa_id = ts_id event,
                sa_type = ''tsunami'',
                sa_severity = sev,
                sa_title = ''Tsunami Warning - Magnitude '' @ float_str rt (ts_magnitude event)
                             @ '' Earthquake'',
                sa_message = ''Tsunami possible from earthquake '' @ fmt_f 0 distance @ ''km away'',
                user_message = msg,
                location = \<lparr>description = ts_location event, lat = ts_latitude event,
                             lon = ts_longitude event\<rparr>,
                distance_km = py_round1 distance,
                event_time = iso_of_ms rt (ts_event_time event),
                metadata = TsunamiMetadata (ts_magnitude event) (ts_depth_km event)
                             (if distance < 500 then Some arrival else None) speed is_coastal,
                source = ts_source event,
                source_url = ts_source_url event,
                sa_user_type = ut\<rparr>
      else None)"

text \<open>The dictionary \<^verbatim>\<open>severity_order\<close> of the tsunami flow and its sort key.\<close>

definition tsunami_severity_order :: "string \<Rightarrow> nat option" where
  "tsunami_severity_order sev =
     (if sev = ''critical'' then Some 3
      else if sev = ''warning'' then Some 2
      else if sev = ''info'' then Some 1
      else None)"

definition tsunami_sort_key :: "SeismicAlert \<Rightarrow> nat \<times> real" where
  "tsunami_sort_key x =
     ((case tsunami_severity_order (sa_severity x) of None \<Rightarrow> 0 | Some r \<Rightarrow> r), distance_km x)"

definition get_tsunami_alerts_near_location ::
  "runtime \<Rightarrow> TsunamiEvent list \<Rightarrow> real \<Rightarrow> real \<Rightarrow> string \<Rightarrow> real \<Rightarrow> SeismicAlert list" where
  "get_tsunami_alerts_near_location rt tsunami_events user_lat user_lon ut max_distance_km =
     (let alerts =
            List.map_filter
              (\<lambda>event. tsunami_alert rt user_lat user_lon ut max_distance_km event
                          (calculate_distance user_lat user_lon (ts_latitude event) (ts_longitude event)))
              tsunami_events
      in sorted_reverse tsunami_sort_key alerts)"

subsection \<open>Notions used by the properties\<close>

text \<open>The position of a detector in the body of \<^verbatim>\<open>check_alerts\<close>, by the type of its alert.\<close>

fun detector_index :: "AlertType \<Rightarrow> nat" where
  "detector_index HEATWAVE = 0"
| "detector_index HEAVY_RAIN = 1"
| "detector_index STORM = 2"
| "detector_index COLD_WAVE = 3"
| "detector_index HIGH_HUMIDITY = 4"

definition in_detector_order :: "Alert \<Rightarrow> Alert \<Rightarrow> bool" where
  "in_detector_order a b \<longleftrightarrow> detector_index (alert_type a) < detector_index (alert_type b)"

text \<open>Concrete inputs on which the properties are evaluated.\<close>

definition example_world :: world where
  "example_world =
     \<lparr>uuid_hex = (\<lambda>k. if k = 0 then ''0123456789abcdef0123456789abcdef''
                      else if k = 1 then ''9f8e7d6c5b4a39281706f5e4d3c2b1a0''
                      else ''5a5a5a5a'' @ digits k @ replicate 24 (CHR ''c'')),
      clock = (\<lambda>k. \<lparr>year = 2024, month = 7, day = 1, hour = 9, minute = 0, second = k,
                         microsecond = 250000\<rparr>),
      uuids_drawn = 0, clock_reads = 0\<rparr>"

definition example_point :: "nat \<Rightarrow> real \<Rightarrow> real \<Rightarrow> real \<Rightarrow> HourlyForecast" where
  "example_point h t p ws =
     \<lparr>timestamp = \<lparr>year = 2024, month = 7, day = 1, hour = h, minute = 0, second = 0,
                   microsecond = 0\<rparr>,
      temperature = t, feels_like = t, condition = ''Clear Sky'', icon = ''01d'',
      precipitation = p, humidity = 50, wind_speed = ws\<rparr>"

definition example_heat_day :: "HourlyForecast list" where
  "example_heat_day =
     map (\<lambda>h. example_point h (if h = 11 \<or> h = 13 \<or> h = 15 then 40 else 20) 0 10)
       [0, 1, 2, 3, 4, 5, 6, 7, 8, 9, 10, 11, 12, 13, 14, 15, 16, 17, 18, 19, 20, 21, 22, 23]"

text \<open>
  What an alert carries besides its reads of the world: the identifier, the creation
  time and the start time of a STORM or \<open>HIGH_HUMIDITY\<close> alert are erased.
\<close>

definition world_independent_part :: "Alert \<Rightarrow> Alert" where
  "world_independent_part a =
     a\<lparr>alert_id := [],
       created_at := \<lparr>year = 0, month = 0, day = 0, hour = 0, minute = 0, second = 0,
                      microsecond = 0\<rparr>,
       start_time := (if alert_type a = STORM \<or> alert_type a = HIGH_HUMIDITY then None
                      else start_time a)\<rparr>"

definition example_storm_forecast :: "HourlyForecast list" where
  "example_storm_forecast = [example_point 12 30 0 20]"

definition example_runtime :: runtime where
  "example_runtime = \<lparr>float_str = fmt_f 1, iso_of_ms = (\<lambda>ms. ''2024-07-01T09:00:00'')\<rparr>"

definition example_tsunami_event :: TsunamiEvent where
  "example_tsunami_event =
     \<lparr>ts_id = ''tsunami_us7000abcd'', trigger_earthquake_id = ''us7000abcd'',
      ts_magnitude = 8.0, ts_location = ''120 km E of Sendai, Japan'',
      ts_latitude = 38, ts_longitude = 142, ts_depth_km = Some 30,
      ts_event_time = 1719824400000, tsunami_potential = True,
      ts_source = ''USGS'',
      ts_source_url = ''https://earthquake.usgs.gov/earthquakes/eventpage/us7000abcd''\<rparr>"

definition example_quake :: Earthquake where
  "example_quake =
     \<lparr>eq_id = ''us6000wxyz'', magnitude = 5.1, place = ''Gulf of Guinea'',
      time_ms = 1719824400000, longitude = 1 / 4096, latitude = 0,
      depth_km = Some 10, felt_reports = None, tsunami = 0,
      url = ''https://earthquake.usgs.gov/earthquakes/eventpage/us6000wxyz''\<rparr>"

text \<open>
  The recommendation list that the detector of each alert type writes into its alert,
  and the list of the table of \<^verbatim>\<open>_personalize_alerts\<close> for a user type string and an
  alert type, written out entry by entry (empty when the string is no user type or the
  pair has no entry).
\<close>

fun base_recommendations :: "AlertType \<Rightarrow> string list" where
  "base_recommendations HEATWAVE =
     [''Avoid outdoor activities during peak hours (12 PM - 4 PM)'',
      ''Stay hydrated and drink plenty of water'',
      ''Use sunscreen and wear protective clothing'',
      ''Check on elderly and vulnerable individuals'']"
| "base_recommendations HEAVY_RAIN =
     [''Carry an umbrella or raincoat'',
      ''Allow extra time for commute'',
      ''Avoid flood-prone areas'',
      ''Check weather updates regularly'']"
| "base_recommendations STORM =
     [''Stay indoors if possible'',
      ''Secure loose objects outdoors'',
      ''Avoid areas with trees and power lines'',
      ''Postpone outdoor activities'']"
| "base_recommendations COLD_WAVE =
     [''Wear warm clothing in layers'',
      ''Protect exposed skin'',
      ''Check heating systems'',
      ''Be aware of frost and ice'']"
| "base_recommendations HIGH_HUMIDITY =
     [''Stay in air-conditioned spaces'',
      ''Drink plenty of fluids'',
      ''Limit strenuous outdoor activities'',
      ''Watch for signs of heat exhaustion'']"

definition personalized_recommendations :: "string \<Rightarrow> AlertType \<Rightarrow> string list" where
  "personalized_recommendations user_type t =
     (if user_type = ''STUDENT'' then
        (case t of
           HEATWAVE \<Rightarrow> [''Plan indoor study sessions'', ''Carry water bottle to school'']
         | HEAVY_RAIN \<Rightarrow> [''Allow extra time for commute'', ''Keep books and electronics protected'']
         | STORM \<Rightarrow> [''Stay in school building if weather worsens'', ''Inform parents about weather'']
         | COLD_WAVE \<Rightarrow> []
         | HIGH_HUMIDITY \<Rightarrow> [''Stay in air-conditioned classrooms'', ''Carry extra water to school''])
      else if user_type = ''FARMER'' then
        (case t of
           HEATWAVE \<Rightarrow> [''Work during early morning or late evening'', ''Ensure worker hydration'']
         | HEAVY_RAIN \<Rightarrow> [''Protect crops and equipment'', ''Check drainage systems'', ''Delay harvesting'']
         | STORM \<Rightarrow> [''Secure farm equipment'', ''Protect livestock'', ''Check barn structures'']
         | COLD_WAVE \<Rightarrow> [''Protect sensitive crops'', ''Ensure livestock shelter'', ''Check irrigation systems'']
         | HIGH_HUMIDITY \<Rightarrow> [''Monitor crop health for fungal diseases'', ''Ensure proper ventilation in storage''])
      else if user_type = ''TRAVELLER'' then
        (case t of
           HEATWAVE \<Rightarrow> [''Plan indoor activities'', ''Carry sufficient water'', ''Avoid peak sun hours'']
         | HEAVY_RAIN \<Rightarrow> [''Check road conditions'', ''Avoid flood-prone routes'', ''Have alternate plans'']
         | STORM \<Rightarrow> [''Postpone travel if possible'', ''Seek shelter'', ''Avoid coastal areas'']
         | COLD_WAVE \<Rightarrow> []
         | HIGH_HUMIDITY \<Rightarrow> [''Plan indoor sightseeing'', ''Stay hydrated during outdoor activities''])
      else if user_type = ''DELIVERY_WORKER'' then
        (case t of
           HEATWAVE \<Rightarrow> [''Schedule deliveries for cooler hours'', ''Keep vehicle AC functional'']
         | HEAVY_RAIN \<Rightarrow> [''Use waterproof packaging'', ''Plan safer routes'']
         | STORM \<Rightarrow> [''Delay deliveries if unsafe'', ''Stay in touch with dispatch'']
         | COLD_WAVE \<Rightarrow> []
         | HIGH_HUMIDITY \<Rightarrow> [''Take frequent breaks in AC'', ''Keep extra water in vehicle''])
      else if user_type = ''GENERAL'' then
        (case t of
           HEATWAVE \<Rightarrow> [''Stay indoors during peak hours'', ''Drink plenty of water'']
         | HEAVY_RAIN \<Rightarrow> [''Carry umbrella'', ''Avoid unnecessary travel'']
         | STORM \<Rightarrow> [''Stay indoors'', ''Secure outdoor items'']
         | COLD_WAVE \<Rightarrow> [''Wear warm clothing'', ''Keep heating systems ready'']
         | HIGH_HUMIDITY \<Rightarrow> [''Use air conditioning if available'', ''Stay hydrated''])
      else [])"

text \<open>An earthquake and a tsunami event on the equator, one hundredth of a degree east.\<close>

definition example_quake_near :: Earthquake where
  "example_quake_near = example_quake\<lparr>longitude := 1 / 100\<rparr>"

definition example_tsunami_near :: TsunamiEvent where
  "example_tsunami_near = example_tsunami_event\<lparr>ts_latitude := 0, ts_longitude := 1 / 100\<rparr>"

section \<open>Verified properties\<close>

subsection \<open>Risk score\<close>

lemma calculate_wind_risk_mono:
  "w \<le> w' \<Longrightarrow> calculate_wind_risk w \<le> calculate_wind_risk w'"
  unfolding calculate_wind_risk_def by (auto simp: min_def field_simps)

lemma calculate_precipitation_risk_mono:
  "p \<le> p' \<Longrightarrow> calculate_precipitation_risk p \<le> calculate_precipitation_risk p'"
  unfolding calculate_precipitation_risk_def by (auto simp: min_def)

lemma calculate_humidity_risk_mono:
  "h \<le> h' \<Longrightarrow> calculate_humidity_risk h t \<le> calculate_humidity_risk h' t"
  unfolding calculate_humidity_risk_def by (auto simp: min_def field_simps)

lemma calculate_risk_score_range:
  "0 \<le> calculate_risk_score t p w h v \<and> calculate_risk_score t p w h v \<le> 100"
  unfolding calculate_risk_score_def Let_def by simp

text \<open>
  C2. For all real inputs (temperature \<open>t\<close>, precipitation \<open>p\<close>, wind speed \<open>w\<close>,
  humidity \<open>h\<close>, visibility \<open>v\<close>), valid snapshot or not, the risk score lies in
  \<open>[0, 100]\<close>; with the other inputs fixed it is non-decreasing in the precipitation,
  in the wind speed and, when the temperature is above 25 degrees, in the humidity.
\<close>

theorem calculate_risk_score_bounded_monotone:
  "0 \<le> calculate_risk_score t p w h v \<and> calculate_risk_score t p w h v \<le> 100
   \<and> (p \<le> p' \<longrightarrow> calculate_risk_score t p w h v \<le> calculate_risk_score t p' w h v)
   \<and> (w \<le> w' \<longrightarrow> calculate_risk_score t p w h v \<le> calculate_risk_score t p w' h v)
   \<and> (25 < t \<and> h \<le> h'
        \<longrightarrow> calculate_risk_score t p w h v \<le> calculate_risk_score t p w h' v)"
proof (intro conjI impI)
  show "0 \<le> calculate_risk_score t p w h v" "calculate_risk_score t p w h v \<le> 100"
    using calculate_risk_score_range by blast+
next
  assume "p \<le> p'"
  from calculate_precipitation_risk_mono[OF this]
  show "calculate_risk_score t p w h v \<le> calculate_risk_score t p' w h v"
    unfolding calculate_risk_score_def Let_def by (simp add: min_def max_def)
next
  assume "w \<le> w'"
  from calculate_wind_risk_mono[OF this]
  show "calculate_risk_score t p w h v \<le> calculate_risk_score t p w' h v"
    unfolding calculate_risk_score_def Let_def by (simp add: min_def max_def)
next
  assume "25 < t \<and> h \<le> h'"
  then have "h \<le> h'" by simp
  from calculate_humidity_risk_mono[OF this, of t]
  show "calculate_risk_score t p w h v \<le> calculate_risk_score t p w h' v"
    unfolding calculate_risk_score_def Let_def by (simp add: min_def max_def)
qed

lemmas risk_eval =
  calculate_risk_score_def calculate_temperature_risk_def calculate_precipitation_risk_def
  calculate_wind_risk_def calculate_humidity_risk_def calculate_visibility_risk_def Let_def

lemma risk_score_examples:
  "calculate_risk_score 30 10 45 80 5 = 65 / 2"
  "calculate_risk_score 30 20 45 80 5 = 35"
  "calculate_risk_score 30 10 70 80 5 = 315 / 8"
  "calculate_risk_score 30 10 45 90 5 = 35"
  by (simp_all add: risk_eval)

theorem calculate_risk_score_bounded_monotone_witness:
  "(10 :: real) \<le> 20 \<and> (45 :: real) \<le> 70 \<and> (25 :: real) < 30 \<and> (80 :: real) \<le> 90
   \<and> 0 \<le> calculate_risk_score 30 10 45 80 5 \<and> calculate_risk_score 30 10 45 80 5 \<le> 100
   \<and> calculate_risk_score 30 10 45 80 5 \<le> calculate_risk_score 30 20 45 80 5
   \<and> calculate_risk_score 30 10 45 80 5 \<le> calculate_risk_score 30 10 70 80 5
   \<and> calculate_risk_score 30 10 45 80 5 \<le> calculate_risk_score 30 10 45 90 5
   \<and> calculate_risk_score 30 10 45 80 5 = 65 / 2
   \<and> calculate_risk_score 30 20 45 80 5 = 35"
  using calculate_risk_score_bounded_monotone[of 30 10 45 80 5 20 70 90] risk_score_examples
  by simp

subsection \<open>Earthquake severity\<close>

text \<open>
  C6. For an earthquake of magnitude \<open>m\<close> at distance \<open>d\<close>, the severity is
  critical exactly when (\<open>m \<ge> 7.0\<close> and \<open>d < 100\<close>) or (\<open>m \<ge> 6.0\<close> and \<open>d < 50\<close>);
  otherwise it is warning exactly when (\<open>m \<ge> 6.5\<close> and \<open>d < 200\<close>) or (\<open>m \<ge> 5.5\<close> and
  \<open>d < 100\<close>) or \<open>d\<close> is below the impact radius of \<open>m\<close>, which is 1000 from magnitude
  8.0, 500 from 7.0, 200 from 6.0, 100 from 5.0 and 50 below; otherwise it is info.
  Magnitude 7.2 at 80 km is critical, and at 150 km it is warning; on every step of the
  radius ladder an event just inside the radius is warning and one at the radius is info.
\<close>

theorem get_severity_classification:
  "get_severity m d =
     (if (m \<ge> 7.0 \<and> d < 100) \<or> (m \<ge> 6.0 \<and> d < 50) then ''critical''
      else if (m \<ge> 6.5 \<and> d < 200) \<or> (m \<ge> 5.5 \<and> d < 100)
              \<or> d < (if m \<ge> 8.0 then 1000 else if m \<ge> 7.0 then 500
                       else if m \<ge> 6.0 then 200 else if m \<ge> 5.0 then 100 else 50)
           then ''warning''
      else ''info'')
   \<and> get_impact_radius m =
         (if m \<ge> 8.0 then 1000 else if m \<ge> 7.0 then 500
          else if m \<ge> 6.0 then 200 else if m \<ge> 5.0 then 100 else 50)
   \<and> get_severity 7.2 80 = ''critical'' \<and> get_severity 7.2 150 = ''warning''
   \<and> get_severity 8 900 = ''warning'' \<and> get_severity 8 1000 = ''info''
   \<and> get_severity 7.2 400 = ''warning'' \<and> get_severity 7.2 500 = ''info''
   \<and> get_severity 6.2 150 = ''warning'' \<and> get_severity 6.2 200 = ''info''
   \<and> get_severity 5.2 99 = ''warning'' \<and> get_severity 5.2 100 = ''info''
   \<and> get_severity 4.5 49 = ''warning'' \<and> get_severity 4.5 50 = ''info''"
  unfolding get_severity_def Let_def get_impact_radius_def by simp

subsection \<open>Alert engine: detectors, personalization, stable sorting\<close>

lemma bind_result_Inr_iff:
  "bind_result r f = Inr y \<longleftrightarrow> (\<exists>v. r = Inr v \<and> f v = Inr y)"
  by (cases r) (simp_all add: bind_result_def)

lemma py_max_Inr_iff: "py_max xs = Inr m \<longleftrightarrow> xs \<noteq> [] \<and> m = foldl max (hd xs) (tl xs)"
  by (cases xs) auto

lemma severity_ladders_not_LOW:
  "get_heatwave_severity x \<noteq> LOW" "get_rain_severity x \<noteq> LOW"
  "get_wind_severity x \<noteq> LOW" "get_cold_severity x \<noteq> LOW"
  by (simp_all add: get_heatwave_severity_def get_rain_severity_def get_wind_severity_def
        get_cold_severity_def)

lemma check_heatwave_Some:
  assumes "check_heatwave w fc thr = Inr (Some a, w')"
  shows "alert_type a = HEATWAVE \<and> severity a \<noteq> LOW"
  using assms
  by (auto simp: check_heatwave_def Let_def bind_result_Inr_iff new_alert_id_def datetime_now_def
        severity_ladders_not_LOW split: if_splits)

lemma check_heavy_rain_Some:
  assumes "check_heavy_rain w fc thr = Inr (Some a, w')"
  shows "alert_type a = HEAVY_RAIN \<and> severity a \<noteq> LOW"
  using assms
  by (auto simp: check_heavy_rain_def Let_def bind_result_Inr_iff new_alert_id_def datetime_now_def
        severity_ladders_not_LOW split: if_splits)

lemma check_storm_Some:
  assumes "check_storm w fc cw thr = Inr (Some a, w')"
  shows "alert_type a = STORM \<and> severity a \<noteq> LOW"
  using assms
  by (auto simp: check_storm_def Let_def bind_result_Inr_iff new_alert_id_def datetime_now_def
        severity_ladders_not_LOW split: if_splits)

lemma check_cold_wave_Some:
  assumes "check_cold_wave w fc thr = Inr (Some a, w')"
  shows "alert_type a = COLD_WAVE \<and> severity a \<noteq> LOW"
  using assms
  by (auto simp: check_cold_wave_def Let_def bind_result_Inr_iff new_alert_id_def datetime_now_def
        severity_ladders_not_LOW split: if_splits)

lemma check_high_humidity_Some:
  assumes "check_high_humidity w t h thr = Inr (Some a, w')"
  shows "alert_type a = HIGH_HUMIDITY \<and> severity a \<noteq> LOW"
  using assms
  by (auto simp: check_high_humidity_def Let_def new_alert_id_def datetime_now_def
        split: if_splits)


lemma sorted_wrt_append_if:
  assumes "sorted_wrt R xs" and "\<And>a x. found = Some a \<Longrightarrow> x \<in> set xs \<Longrightarrow> R x a"
  shows "sorted_wrt R (append_if xs found)"
  using assms by (cases found) (auto simp: append_if_def sorted_wrt_append)

lemma set_append_if: "set (append_if xs found) = set xs \<union> set_option found"
  by (cases found) (auto simp: append_if_def)

lemma detect_alerts_Inr:
  assumes "detect_alerts w fc ct ch cw thr = Inr (alerts, w')"
  shows "sorted_wrt in_detector_order alerts \<and> (\<forall>a \<in> set alerts. severity a \<noteq> LOW)"
proof -
  from assms obtain h w1 r w2 s w3 c w4 u where
    h: "check_heatwave w fc (heatwave_temp thr) = Inr (h, w1)" and
    r: "check_heavy_rain w1 fc (heavy_rain_amount thr) = Inr (r, w2)" and
    s: "check_storm w2 fc cw (high_wind_speed thr) = Inr (s, w3)" and
    c: "check_cold_wave w3 fc (cold_wave_temp thr) = Inr (c, w4)" and
    u: "check_high_humidity w4 ct ch (high_humidity thr) = Inr (u, w')" and
    alerts: "alerts = append_if (append_if (append_if (append_if (append_if [] h) r) s) c) u"
    unfolding detect_alerts_def by (auto simp: bind_result_Inr_iff)
  have th: "\<And>a. h = Some a \<Longrightarrow> alert_type a = HEATWAVE \<and> severity a \<noteq> LOW"
    using check_heatwave_Some h by blast
  have tr: "\<And>a. r = Some a \<Longrightarrow> alert_type a = HEAVY_RAIN \<and> severity a \<noteq> LOW"
    using check_heavy_rain_Some r by blast
  have ts: "\<And>a. s = Some a \<Longrightarrow> alert_type a = STORM \<and> severity a \<noteq> LOW"
    using check_storm_Some s by blast
  have tc: "\<And>a. c = Some a \<Longrightarrow> alert_type a = COLD_WAVE \<and> severity a \<noteq> LOW"
    using check_cold_wave_Some c by blast
  have tu: "\<And>a. u = Some a \<Longrightarrow> alert_type a = HIGH_HUMIDITY \<and> severity a \<noteq> LOW"
    using check_high_humidity_Some u by blast
  let ?l1 = "append_if [] h"
  let ?l2 = "append_if ?l1 r"
  let ?l3 = "append_if ?l2 s"
  let ?l4 = "append_if ?l3 c"
  have i1: "\<forall>x \<in> set ?l1. detector_index (alert_type x) < 1 \<and> severity x \<noteq> LOW"
    using th by (auto simp: set_append_if)
  have i2: "\<forall>x \<in> set ?l2. detector_index (alert_type x) < 2 \<and> severity x \<noteq> LOW"
    using i1 tr by (auto simp: set_append_if)
  have i3: "\<forall>x \<in> set ?l3. detector_index (alert_type x) < 3 \<and> severity x \<noteq> LOW"
    using i2 ts by (auto simp: set_append_if)
  have i4: "\<forall>x \<in> set ?l4. detector_index (alert_type x) < 4 \<and> severity x \<noteq> LOW"
    using i3 tc by (auto simp: set_append_if)
  have i5: "\<forall>x \<in> set alerts. severity x \<noteq> LOW"
    unfolding alerts using i4 tu by (auto simp: set_append_if)
  have s1: "sorted_wrt in_detector_order ?l1"
    by (rule sorted_wrt_append_if) simp_all
  have s2: "sorted_wrt in_detector_order ?l2"
    by (rule sorted_wrt_append_if[OF s1]) (use i1 tr in \<open>auto simp: in_detector_order_def\<close>)
  have s3: "sorted_wrt in_detector_order ?l3"
    by (rule sorted_wrt_append_if[OF s2]) (use i2 ts in \<open>auto simp: in_detector_order_def\<close>)
  have s4: "sorted_wrt in_detector_order ?l4"
    by (rule sorted_wrt_append_if[OF s3]) (use i3 tc in \<open>auto simp: in_detector_order_def\<close>)
  have s5: "sorted_wrt in_detector_order alerts"
    unfolding alerts
    by (rule sorted_wrt_append_if[OF s4]) (use i4 tu in \<open>auto simp: in_detector_order_def\<close>)
  show ?thesis using s5 i5 by simp
qed

lemma personalize_alert_fields [simp]:
  "alert_type (personalize_alert u a) = alert_type a"
  "severity (personalize_alert u a) = severity a"
  by (simp_all add: personalize_alert_def split: option.splits)

lemma personalize_alerts_map_fields:
  "map alert_type (personalize_alerts xs ut) = map alert_type xs"
  "map severity (personalize_alerts xs ut) = map severity xs"
  by (auto simp: personalize_alerts_def split: sum.splits error.splits)

lemma sorted_wrt_map_eq:
  assumes "map f xs = map f ys" "sorted_wrt (\<lambda>a b. R (f a) (f b)) ys"
  shows "sorted_wrt (\<lambda>a b. R (f a) (f b)) xs"
proof -
  have "sorted_wrt R (map f ys)" using assms(2) by (simp add: sorted_wrt_map)
  then have "sorted_wrt R (map f xs)" using assms(1) by simp
  then show ?thesis by (simp add: sorted_wrt_map)
qed

lemma insort_key_stable_order:
  assumes "sorted_wrt (\<lambda>a b. f a < f b \<or> (f a = f b \<and> R a b)) ys"
      and "\<forall>y \<in> set ys. R x y"
  shows "sorted_wrt (\<lambda>a b. f a < f b \<or> (f a = f b \<and> R a b)) (insort_key f x ys)"
  using assms
proof (induction ys)
  case Nil
  then show ?case by simp
next
  case (Cons y ys)
  show ?case
  proof (cases "f x \<le> f y")
    case True
    have "\<forall>z \<in> set ys. f y \<le> f z" using Cons.prems(1) by auto
    with True Cons.prems show ?thesis by (auto simp: le_less)
  next
    case False
    with Cons show ?thesis by (auto simp: set_insort_key)
  qed
qed

lemma sort_key_stable_order:
  assumes "sorted_wrt R xs"
  shows "sorted_wrt (\<lambda>a b. f a < f b \<or> (f a = f b \<and> R a b)) (sort_key f xs)"
  using assms
proof (induction xs)
  case Nil
  then show ?case by simp
next
  case (Cons x xs)
  then show ?case by (simp add: insort_key_stable_order)
qed

lemma sorted_reverse_stable_order:
  assumes "sorted_wrt R xs"
  shows "sorted_wrt (\<lambda>a b. f b < f a \<or> (f a = f b \<and> R a b)) (sorted_reverse f xs)"
proof -
  have "sorted_wrt (\<lambda>a b. R b a) (rev xs)"
    using assms by (simp add: sorted_wrt_rev)
  then have "sorted_wrt (\<lambda>a b. f a < f b \<or> (f a = f b \<and> R b a)) (sort_key f (rev xs))"
    by (rule sort_key_stable_order)
  then have "sorted_wrt (\<lambda>b a. f a < f b \<or> (f a = f b \<and> R b a)) (rev (sort_key f (rev xs)))"
    by (simp add: sorted_wrt_rev)
  then show ?thesis
    unfolding sorted_reverse_def by (rule sorted_wrt_mono_rel[rotated]) auto
qed

lemma set_sorted_reverse [simp]: "set (sorted_reverse f xs) = set xs"
  by (simp add: sorted_reverse_def)

lemmas check_alerts_eval =
  check_alerts_def detect_alerts_def check_heatwave_def check_heavy_rain_def check_storm_def
  check_cold_wave_def check_high_humidity_def Let_def bind_result_def
  default_thresholds_def new_alert_id_def datetime_now_def append_if_def personalize_alerts_def
  UserType_of_value_def personalize_alert_def prioritize_alerts_def sorted_reverse_def
  severity_key_def get_heatwave_severity_def get_rain_severity_def get_wind_severity_def
  get_cold_severity_def

lemma example_check_alerts:
  "\<exists>alerts w'. check_alerts example_world [example_point 12 30 60 20] 30 90 120 ''FARMER'' None
        = Inr (alerts, w')
     \<and> map alert_type alerts = [STORM, HEAVY_RAIN, HIGH_HUMIDITY]
     \<and> map severity alerts = [SEVERE, MODERATE, MODERATE]"
  by (simp add: check_alerts_eval example_world_def example_point_def)

lemma check_alerts_order:
  assumes "check_alerts w fc ct ch cw ut thr = Inr (alerts, w')"
  shows "sorted_wrt (\<lambda>a b. severity_key b < severity_key a
            \<or> (severity_key a = severity_key b \<and> in_detector_order a b)) alerts"
    and "\<forall>a \<in> set alerts. severity a \<noteq> LOW"
proof -
  from assms obtain found where
    d: "detect_alerts w fc ct ch cw (case thr of None \<Rightarrow> default_thresholds | Some t \<Rightarrow> t)
          = Inr (found, w')" and
    a: "alerts = prioritize_alerts (personalize_alerts found ut)"
    unfolding check_alerts_def Let_def by (auto simp: bind_result_Inr_iff)
  from detect_alerts_Inr[OF d] have
    s: "sorted_wrt in_detector_order found" and l: "\<forall>a \<in> set found. severity a \<noteq> LOW"
    by simp_all
  have "sorted_wrt (\<lambda>a b. detector_index (alert_type a) < detector_index (alert_type b))
          (personalize_alerts found ut)"
    by (rule sorted_wrt_map_eq[where f = alert_type and ys = found])
       (use s in \<open>simp_all add: personalize_alerts_map_fields in_detector_order_def[abs_def]\<close>)
  then have "sorted_wrt in_detector_order (personalize_alerts found ut)"
    by (simp add: in_detector_order_def[abs_def])
  then show "sorted_wrt (\<lambda>a b. severity_key b < severity_key a
            \<or> (severity_key a = severity_key b \<and> in_detector_order a b)) alerts"
    unfolding a prioritize_alerts_def by (rule sorted_reverse_stable_order)
  have "set (map severity (personalize_alerts found ut)) = set (map severity found)"
    by (simp only: personalize_alerts_map_fields)
  then have "\<forall>a \<in> set (personalize_alerts found ut). severity a \<noteq> LOW"
    using l by (metis (no_types, lifting) image_iff list.set_map)
  then show "\<forall>a \<in> set alerts. severity a \<noteq> LOW"
    unfolding a prioritize_alerts_def by simp
qed

lemma severity_key_table:
  "severity_key a = (case severity a of SEVERE \<Rightarrow> 4 | HIGH \<Rightarrow> 3 | MODERATE \<Rightarrow> 2 | LOW \<Rightarrow> 1)"
  by (cases "severity a") (simp_all add: severity_key_def)

subsection \<open>Alert engine: the empty forecast\<close>

text \<open>
  C1. The claim: with an empty forecast, a current wind of 120 and a wind threshold of 60,
  \<^verbatim>\<open>check_alerts\<close> raises nothing and returns exactly one alert, a STORM of severity
  SEVERE. On the code the heatwave and cold wave detectors give no alert and the storm
  detector gives the SEVERE STORM alert, but the heavy rain detector takes \<^verbatim>\<open>max\<close> of
  the empty slice and raises ValueError, and so does \<^verbatim>\<open>check_alerts\<close>: the theorem
  evaluates the code on the claim's input.
\<close>

theorem check_alerts_empty_forecast_raises:
  "check_heatwave w [] heat_threshold = Inr (None, w)
   \<and> check_cold_wave w [] cold_threshold = Inr (None, w)
   \<and> check_heavy_rain w [] rain_threshold = Inl ValueError
   \<and> (\<exists>a w'. check_storm w [] 120 60 = Inr (Some a, w')
         \<and> alert_type a = STORM \<and> severity a = SEVERE)
   \<and> check_alerts w [] current_temp current_humidity 120 user None = Inl ValueError
   \<and> check_alerts w [] current_temp current_humidity 120 user
        (Some (thresholds\<lparr>high_wind_speed := 60\<rparr>)) = Inl ValueError"
  by (simp add: check_alerts_eval)

subsection \<open>Alert engine: order of the returned alerts\<close>

text \<open>
  C7. The list returned by \<^verbatim>\<open>check_alerts\<close> is sorted by non-increasing severity
  rank, the rank being SEVERE 4, HIGH 3, MODERATE 2, LOW 1, and of two alerts of the
  same severity the one whose detector runs earlier (heatwave, heavy rain, storm, cold
  wave, high humidity) comes first.
\<close>

theorem check_alerts_sorted_by_severity:
  assumes "check_alerts w fc ct ch cw ut thr = Inr (alerts, w')"
  shows "sorted_wrt (\<lambda>a b. severity_key b \<le> severity_key a) alerts
       \<and> (\<forall>a \<in> set alerts. severity_key a =
             (case severity a of SEVERE \<Rightarrow> 4 | HIGH \<Rightarrow> 3 | MODERATE \<Rightarrow> 2 | LOW \<Rightarrow> 1))
       \<and> sorted_wrt (\<lambda>a b. severity a = severity b \<longrightarrow> in_detector_order a b) alerts"
proof (intro conjI)
  note s = check_alerts_order(1)[OF assms]
  show "sorted_wrt (\<lambda>a b. severity_key b \<le> severity_key a) alerts"
    by (rule sorted_wrt_mono_rel[OF _ s]) auto
  show "sorted_wrt (\<lambda>a b. severity a = severity b \<longrightarrow> in_detector_order a b) alerts"
    by (rule sorted_wrt_mono_rel[OF _ s]) (auto simp: severity_key_def)
  show "\<forall>a \<in> set alerts. severity_key a =
             (case severity a of SEVERE \<Rightarrow> 4 | HIGH \<Rightarrow> 3 | MODERATE \<Rightarrow> 2 | LOW \<Rightarrow> 1)"
    by (simp add: severity_key_table)
qed

theorem check_alerts_sorted_by_severity_witness:
  "\<exists>alerts w'. check_alerts example_world [example_point 12 30 60 20] 30 90 120 ''FARMER'' None
        = Inr (alerts, w')
     \<and> map alert_type alerts = [STORM, HEAVY_RAIN, HIGH_HUMIDITY]
     \<and> map severity alerts = [SEVERE, MODERATE, MODERATE]
     \<and> sorted_wrt (\<lambda>a b. severity_key b \<le> severity_key a) alerts
     \<and> sorted_wrt (\<lambda>a b. severity a = severity b \<longrightarrow> in_detector_order a b) alerts"
proof -
  from example_check_alerts obtain alerts w' where
    e: "check_alerts example_world [example_point 12 30 60 20] 30 90 120 ''FARMER'' None
          = Inr (alerts, w')" and
    t: "map alert_type alerts = [STORM, HEAVY_RAIN, HIGH_HUMIDITY]"
       "map severity alerts = [SEVERE, MODERATE, MODERATE]"
    by auto
  from check_alerts_sorted_by_severity[OF e] e t show ?thesis by auto
qed

subsection \<open>Alert engine: severities in use\<close>

text \<open>
  C10. Every alert that \<^verbatim>\<open>check_alerts\<close> returns has severity MODERATE, HIGH or
  SEVERE: no detector assigns LOW.
\<close>

theorem check_alerts_severity_not_LOW:
  assumes "check_alerts w fc ct ch cw ut thr = Inr (alerts, w')" and "a \<in> set alerts"
  shows "severity a = MODERATE \<or> severity a = HIGH \<or> severity a = SEVERE"
  using check_alerts_order(2)[OF assms(1)] assms(2) by (cases "severity a") auto

theorem check_alerts_severity_not_LOW_witness:
  "\<exists>alerts w' a. check_alerts example_world [example_point 12 30 60 20] 30 90 120 ''FARMER'' None
        = Inr (alerts, w')
     \<and> a \<in> set alerts \<and> alert_type a = HIGH_HUMIDITY
     \<and> (severity a = MODERATE \<or> severity a = HIGH \<or> severity a = SEVERE)"
proof -
  from example_check_alerts obtain alerts w' where
    e: "check_alerts example_world [example_point 12 30 60 20] 30 90 120 ''FARMER'' None
          = Inr (alerts, w')" and
    t: "map alert_type alerts = [STORM, HEAVY_RAIN, HIGH_HUMIDITY]"
    by auto
  from t have "HIGH_HUMIDITY \<in> set (map alert_type alerts)" by simp
  then obtain a where a: "a \<in> set alerts" "alert_type a = HIGH_HUMIDITY" by auto
  from check_alerts_severity_not_LOW[OF e a(1)] e a show ?thesis by auto
qed


subsection \<open>Alert engine: the heatwave detector\<close>

lemma heatwave_scan_filter:
  "heatwave_scan xs thr acc =
     acc @ filter (\<lambda>i. temperature i > thr \<and> 10 \<le> hour (timestamp i) \<and> hour (timestamp i) \<le> 18) xs"
  by (induction xs arbitrary: acc) (simp_all add: Let_def)

lemma foldl_max_Max: "foldl max (x :: real) xs = Max (set (x # xs))"
proof -
  have "(\<lambda>a s. max s a) = (max :: real \<Rightarrow> real \<Rightarrow> real)"
    by (intro ext) (simp add: max.commute)
  then have "foldl max x xs = fold max xs x"
    by (simp add: foldl_conv_fold)
  also have "\<dots> = Max (set (x # xs))"
    by (rule Max.set_eq_fold[symmetric])
  finally show ?thesis .
qed

lemma py_max_nonempty: "xs \<noteq> [] \<Longrightarrow> py_max xs = Inr (Max (set xs))"
  by (cases xs) (simp_all only: py_max.simps foldl_max_Max)

lemma check_heatwave_none:
  assumes "length (filter (\<lambda>i. temperature i > thr \<and> 10 \<le> hour (timestamp i) \<and> hour (timestamp i) \<le> 18) (take 24 fc)) < 3"
  shows "check_heatwave w fc thr = Inr (None, w)"
  using assms by (simp add: check_heatwave_def heatwave_scan_filter Let_def)

lemma check_heatwave_some:
  fixes fc thr
  defines "q \<equiv> filter (\<lambda>i. temperature i > thr \<and> 10 \<le> hour (timestamp i) \<and> hour (timestamp i) \<le> 18) (take 24 fc)"
  assumes "3 \<le> length q"
  shows "\<exists>a w'. check_heatwave w fc thr = Inr (Some a, w') \<and> alert_type a = HEATWAVE
           \<and> severity a = (if Max (set (map temperature q)) > 42 then SEVERE
                            else if Max (set (map temperature q)) > 38 then HIGH else MODERATE)
           \<and> start_time a = Some (timestamp (hd q)) \<and> end_time a = Some (timestamp (last q))"
proof -
  have ne: "map temperature q \<noteq> []" using assms(2) by auto
  have scan: "heatwave_scan (take 24 fc) thr [] = q"
    by (simp add: heatwave_scan_filter q_def)
  show ?thesis
    unfolding check_heatwave_def scan Let_def
    using assms(2)
    by (simp add: py_max_nonempty[OF ne] bind_result_def new_alert_id_def datetime_now_def
          get_heatwave_severity_def)
qed

lemma example_heat_day_alert:
  "\<exists>a w'. check_alerts example_world example_heat_day 22 50 10 ''GENERAL''
             (Some (default_thresholds\<lparr>heatwave_temp := 35\<rparr>)) = Inr ([a], w')
      \<and> alert_type a = HEATWAVE \<and> severity a = HIGH
      \<and> start_time a = Some (timestamp (example_point 11 40 0 10))
      \<and> end_time a = Some (timestamp (example_point 15 40 0 10))"
  by (simp add: check_alerts_eval example_world_def example_point_def example_heat_day_def)

text \<open>
  C5. The heatwave detector looks at the first 24 points of the forecast and keeps those
  whose temperature exceeds the threshold and whose hour is from 10 to 18. It raises an
  alert exactly when at least 3 points are kept; the severity is SEVERE if the maximum
  kept temperature exceeds 42, HIGH if it exceeds 38, MODERATE otherwise; start and end
  are the timestamps of the first and the last kept point. On a 24-point forecast whose
  points at hours 11, 13 and 15 are at 40 degrees and all others at 20, with threshold
  35, \<^verbatim>\<open>check_alerts\<close> returns exactly one alert: a HEATWAVE of severity HIGH from
  the point at 11 to the point at 15.
\<close>

theorem check_heatwave_characterization:
  "(let q = filter (\<lambda>i. temperature i > threshold \<and> 10 \<le> hour (timestamp i)
                        \<and> hour (timestamp i) \<le> 18) (take 24 forecast)
    in (length q < 3 \<longrightarrow> check_heatwave w forecast threshold = Inr (None, w))
     \<and> (3 \<le> length q \<longrightarrow>
          (\<exists>a w'. check_heatwave w forecast threshold = Inr (Some a, w')
             \<and> alert_type a = HEATWAVE
             \<and> severity a = (if Max (set (map temperature q)) > 42 then SEVERE
                              else if Max (set (map temperature q)) > 38 then HIGH
                              else MODERATE)
             \<and> start_time a = Some (timestamp (hd q))
             \<and> end_time a = Some (timestamp (last q)))))
   \<and> length example_heat_day = 24
   \<and> (\<exists>a w'. check_alerts example_world example_heat_day 22 50 10 ''GENERAL''
                (Some (default_thresholds\<lparr>heatwave_temp := 35\<rparr>)) = Inr ([a], w')
         \<and> alert_type a = HEATWAVE \<and> severity a = HIGH
         \<and> start_time a = Some (timestamp (example_point 11 40 0 10))
         \<and> end_time a = Some (timestamp (example_point 15 40 0 10)))"
  unfolding Let_def
  using check_heatwave_none[where thr = threshold and fc = forecast and w = w]
    check_heatwave_some[where thr = threshold and fc = forecast and w = w]
    example_heat_day_alert
  by (simp add: example_heat_day_def)

theorem check_heatwave_characterization_witness:
  "\<exists>a w'. check_heatwave example_world example_heat_day 35 = Inr (Some a, w')
      \<and> alert_type a = HEATWAVE \<and> severity a = HIGH
      \<and> start_time a = Some (timestamp (example_point 11 40 0 10))
      \<and> end_time a = Some (timestamp (example_point 15 40 0 10))
      \<and> check_heatwave example_world (take 12 example_heat_day) 35 = Inr (None, example_world)"
  using check_heatwave_characterization[where threshold = 35 and forecast = example_heat_day
      and w = example_world]
    check_heatwave_characterization[where threshold = 35 and forecast = "take 12 example_heat_day"
      and w = example_world]
  by (simp add: example_heat_day_def example_point_def Let_def)

subsection \<open>Alert engine: what the result depends on\<close>

lemma bind_result_agree:
  assumes "map_sum id (map_option world_independent_part \<circ> fst) r1
             = map_sum id (map_option world_independent_part \<circ> fst) r2"
    and "\<And>a1 v1 a2 v2.
           map_option world_independent_part a1 = map_option world_independent_part a2
           \<Longrightarrow> map_sum id (map world_independent_part \<circ> fst) (f1 (a1, v1))
               = map_sum id (map world_independent_part \<circ> fst) (f2 (a2, v2))"
  shows "map_sum id (map world_independent_part \<circ> fst) (bind_result r1 f1)
           = map_sum id (map world_independent_part \<circ> fst) (bind_result r2 f2)"
  using assms by (cases r1; cases r2) (auto simp: bind_result_def)

lemma check_heatwave_agree:
  "map_sum id (map_option world_independent_part \<circ> fst) (check_heatwave w1 fc thr)
     = map_sum id (map_option world_independent_part \<circ> fst) (check_heatwave w2 fc thr)"
  by (simp add: check_heatwave_def Let_def bind_result_def new_alert_id_def datetime_now_def
        world_independent_part_def split: sum.splits)

lemma check_heavy_rain_agree:
  "map_sum id (map_option world_independent_part \<circ> fst) (check_heavy_rain w1 fc thr)
     = map_sum id (map_option world_independent_part \<circ> fst) (check_heavy_rain w2 fc thr)"
  by (simp add: check_heavy_rain_def Let_def bind_result_def new_alert_id_def datetime_now_def
        world_independent_part_def split: sum.splits)

lemma check_storm_agree:
  "map_sum id (map_option world_independent_part \<circ> fst) (check_storm w1 fc cw thr)
     = map_sum id (map_option world_independent_part \<circ> fst) (check_storm w2 fc cw thr)"
  by (simp add: check_storm_def Let_def bind_result_def new_alert_id_def datetime_now_def
        world_independent_part_def split: sum.splits)

lemma check_cold_wave_agree:
  "map_sum id (map_option world_independent_part \<circ> fst) (check_cold_wave w1 fc thr)
     = map_sum id (map_option world_independent_part \<circ> fst) (check_cold_wave w2 fc thr)"
  by (simp add: check_cold_wave_def Let_def bind_result_def new_alert_id_def datetime_now_def
        world_independent_part_def split: sum.splits)

lemma check_high_humidity_agree:
  "map_sum id (map_option world_independent_part \<circ> fst) (check_high_humidity w1 t h thr)
     = map_sum id (map_option world_independent_part \<circ> fst) (check_high_humidity w2 t h thr)"
  by (simp add: check_high_humidity_def Let_def new_alert_id_def datetime_now_def
        world_independent_part_def)

lemma map_append_if:
  "map f (append_if xs found) = map f xs @ (case map_option f found of None \<Rightarrow> [] | Some b \<Rightarrow> [b])"
  by (cases found) (simp_all add: append_if_def)

lemma detect_alerts_agree:
  "map_sum id (map world_independent_part \<circ> fst) (detect_alerts w1 fc ct ch cw thr)
     = map_sum id (map world_independent_part \<circ> fst) (detect_alerts w2 fc ct ch cw thr)"
  unfolding detect_alerts_def
  apply (rule bind_result_agree[OF check_heatwave_agree])
  apply (simp only: prod.case)
  apply (rule bind_result_agree[OF check_heavy_rain_agree])
  apply (simp only: prod.case)
  apply (rule bind_result_agree[OF check_storm_agree])
  apply (simp only: prod.case)
  apply (rule bind_result_agree[OF check_cold_wave_agree])
  apply (simp only: prod.case)
  apply (rule bind_result_agree[OF check_high_humidity_agree])
  apply (simp add: map_append_if)
  done

lemma world_independent_part_personalize:
  "world_independent_part (personalize_alert u a) = personalize_alert u (world_independent_part a)"
  by (simp add: personalize_alert_def world_independent_part_def split: option.splits)

lemma map_personalize_alerts:
  "map world_independent_part (personalize_alerts xs ut)
     = personalize_alerts (map world_independent_part xs) ut"
  by (simp add: personalize_alerts_def world_independent_part_personalize
        split: sum.splits error.splits)

lemma map_insort_key:
  assumes "\<forall>y. k (f y) = k y"
  shows "map f (insort_key k x ys) = insort_key k (f x) (map f ys)"
  using assms by (induction ys) simp_all

lemma map_sort_key:
  assumes "\<forall>y. k (f y) = k y"
  shows "map f (sort_key k xs) = sort_key k (map f xs)"
  using assms by (induction xs) (simp_all add: map_insort_key)

lemma map_prioritize_alerts:
  "map world_independent_part (prioritize_alerts xs) = prioritize_alerts (map world_independent_part xs)"
proof -
  have k: "\<forall>y. severity_key (world_independent_part y) = severity_key y"
    by (simp add: severity_key_def world_independent_part_def)
  have "map world_independent_part (sort_key severity_key (rev xs))
          = sort_key severity_key (map world_independent_part (rev xs))"
    using k by (rule map_sort_key)
  then have "rev (map world_independent_part (sort_key severity_key (rev xs)))
          = rev (sort_key severity_key (rev (map world_independent_part xs)))"
    by (simp only: rev_map)
  then show ?thesis
    unfolding prioritize_alerts_def sorted_reverse_def by (simp only: rev_map)
qed

text \<open>
  C4, as stated: two invocations of \<^verbatim>\<open>check_alerts\<close> with identical arguments return
  identical lists, identifiers and start times included. It fails: the identifier is
  drawn from \<^verbatim>\<open>uuid.uuid4()\<close> and the start time of a storm alert is \<^verbatim>\<open>datetime.now()\<close>.
  Two calls in a row on the same arguments, the second in the world the first one left,
  return alerts with different identifiers and start times.
\<close>

theorem check_alerts_not_deterministic:
  "\<exists>a w1 b w2.
      check_alerts example_world example_storm_forecast 30 50 120 ''GENERAL'' None = Inr ([a], w1)
    \<and> check_alerts w1 example_storm_forecast 30 50 120 ''GENERAL'' None = Inr ([b], w2)
    \<and> alert_id a = ''alert_01234567'' \<and> alert_id b = ''alert_9f8e7d6c''
    \<and> start_time a = Some \<lparr>year = 2024, month = 7, day = 1, hour = 9, minute = 0, second = 0,
                           microsecond = 250000\<rparr>
    \<and> start_time b = Some \<lparr>year = 2024, month = 7, day = 1, hour = 9, minute = 0, second = 2,
                           microsecond = 250000\<rparr>
    \<and> [a] \<noteq> [b]"
  by (simp add: check_alerts_eval example_world_def example_point_def example_storm_forecast_def)

text \<open>
  C4, amended: the result of \<^verbatim>\<open>check_alerts\<close> is a function of its arguments up to
  the reads of the world. Two invocations with identical arguments, in any two worlds,
  either both raise the same error or return lists of the same length that agree,
  position by position, on type, severity, title, message, recommendations, end time,
  acknowledged flag, and on the start time of HEATWAVE, \<open>HEAVY_RAIN\<close> and \<open>COLD_WAVE\<close>
  alerts; only the identifier, the creation time and the start time of STORM and
  \<open>HIGH_HUMIDITY\<close> alerts may differ.
\<close>

theorem check_alerts_deterministic_up_to_world:
  "map_sum id (map world_independent_part \<circ> fst)
       (check_alerts w1 forecast current_temp current_humidity current_wind user thresholds)
     = map_sum id (map world_independent_part \<circ> fst)
       (check_alerts w2 forecast current_temp current_humidity current_wind user thresholds)"
proof -
  let ?thr = "case thresholds of None \<Rightarrow> default_thresholds | Some t \<Rightarrow> t"
  let ?d1 = "detect_alerts w1 forecast current_temp current_humidity current_wind ?thr"
  let ?d2 = "detect_alerts w2 forecast current_temp current_humidity current_wind ?thr"
  have d: "map_sum id (map world_independent_part \<circ> fst) ?d1
             = map_sum id (map world_independent_part \<circ> fst) ?d2"
    by (rule detect_alerts_agree)
  show ?thesis
  proof (cases ?d1)
    case (Inl e)
    with d have "?d2 = Inl e" by (cases ?d2) auto
    with Inl show ?thesis by (simp add: check_alerts_def bind_result_def)
  next
    case (Inr p1)
    then obtain xs1 v1 where p1: "?d1 = Inr (xs1, v1)" by (cases p1) auto
    with d obtain xs2 v2 where p2: "?d2 = Inr (xs2, v2)"
      and eq: "map world_independent_part xs1 = map world_independent_part xs2"
      by (cases ?d2) auto
    show ?thesis
      by (simp add: check_alerts_def bind_result_def p1 p2 map_prioritize_alerts
            map_personalize_alerts eq)
  qed
qed


subsection \<open>Tsunami flow: the arrival estimate\<close>

lemma py_int_nonneg: "0 \<le> x \<Longrightarrow> py_int x = \<lfloor>x\<rfloor>"
  by (simp add: py_int_def)

lemma tsunami_alert_fields:
  assumes "tsunami_alert rt user_lat user_lon ut max_distance_km event d = Some a"
  shows "d \<le> max_distance_km"
    and "metadata a = TsunamiMetadata (ts_magnitude event) (ts_depth_km event)
           (if d < 500 then Some (py_int (d / 800 * 60)) else None) 800 True"
    and "user_message a = generate_tsunami_message rt (ts_magnitude event) d (ts_location event) ut
           (calculate_tsunami_severity (ts_magnitude event) d True)
           (if d < 500 then Some (py_int (d / 800 * 60)) else None)"
    and "distance_km a = py_round1 d"
    and "location a = \<lparr>description = ts_location event, lat = ts_latitude event,
                          lon = ts_longitude event\<rparr>"
  using assms
  by (auto simp: tsunami_alert_def Let_def is_coastal_location_def split: if_splits)

lemma set_map_filter: "set (List.map_filter f xs) = {y. \<exists>x \<in> set xs. f x = Some y}"
  by (induction xs) (auto simp: List.map_filter_simps split: option.splits)

text \<open>
  Every alert of the tsunami flow is the alert that the loop body builds for one of the
  events, at the haversine distance of that event from the user.
\<close>

lemma tsunami_flow_alert_origin:
  assumes "b \<in> set (get_tsunami_alerts_near_location rt tsunami_events user_lat user_lon ut
                       max_distance_km)"
  shows "\<exists>ev \<in> set tsunami_events.
           tsunami_alert rt user_lat user_lon ut max_distance_km ev
             (calculate_distance user_lat user_lon (ts_latitude ev) (ts_longitude ev)) = Some b"
  using assms
  by (auto simp: get_tsunami_alerts_near_location_def Let_def sorted_reverse_def set_map_filter)

lemma generate_tsunami_message_arrival:
  assumes "n \<noteq> 0"
  shows "sublist (''Tsunami waves may arrive in approximately '' @ str_int n @ '' minutes.'')
           (generate_tsunami_message rt mag d loc ut sev (Some n))"
proof -
  let ?target = "''Tsunami waves may arrive in approximately '' @ str_int n @ '' minutes.''"
  obtain rest where
    "generate_tsunami_message rt mag d loc ut sev (Some n)
       = (''TSUNAMI WARNING: Magnitude '' @ float_str rt mag @ '' earthquake near '' @ loc @ ''. '')
         @ ?target @ rest"
    using assms by (simp add: generate_tsunami_message_def truthy_def Let_def)
  then show ?thesis
    unfolding sublist_def by blast
qed

lemma generate_tsunami_message_no_arrival:
  "prefix (''TSUNAMI WARNING: Magnitude '' @ float_str rt mag @ '' earthquake near '' @ loc
             @ '' ('' @ fmt_f 0 d @ ''km away). Tsunami waves possible.'')
          (generate_tsunami_message rt mag d loc ut sev None)"
  unfolding prefix_def by (simp add: generate_tsunami_message_def truthy_def Let_def)

lemma example_tsunami_alert_400:
  "\<exists>a. tsunami_alert example_runtime 38 141 ''GENERAL'' 1000 example_tsunami_event 400 = Some a
      \<and> sa_severity a = ''critical''
      \<and> estimated_arrival_minutes (metadata a) = Some 30
      \<and> user_message a = ''TSUNAMI WARNING: Magnitude 8.0 earthquake near 120 km E of Sendai, Japan. Tsunami waves may arrive in approximately 30 minutes. EVACUATE IMMEDIATELY to higher ground (at least 30m above sea level or 3km inland). Do not wait for official evacuation orders. Take tsunami warnings seriously. Move quickly but calmly to safety.''"
  by (simp add: tsunami_alert_def Let_def is_coastal_location_def calculate_tsunami_severity_def
        generate_tsunami_message_def truthy_def tsunami_user_advice_def py_int_def str_int_def
        digits.simps digit_char_def example_runtime_def example_tsunami_event_def fmt_f_def
        round_half_even_def)

text \<open>
  C3, as stated: the estimated arrival minutes of a tsunami alert at distance \<open>d\<close> are
  \<open>round (d / 800 * 60)\<close>. It fails: the code converts with \<^verbatim>\<open>int\<close>, which truncates.
  At 410 km the quotient is 30.75: the alert carries 30, and rounding gives 31.
\<close>

theorem tsunami_alert_estimate_truncated:
  "\<exists>a. tsunami_alert example_runtime 38 141 ''GENERAL'' 1000 example_tsunami_event 410 = Some a
      \<and> estimated_arrival_minutes (metadata a) = Some 30
      \<and> round (410 / 800 * 60 :: real) = 31
      \<and> round_half_even (410 / 800 * 60) = 31"
  by (simp add: tsunami_alert_def Let_def py_int_def round_def round_half_even_def)

text \<open>
  C3, amended: for a tsunami alert produced for an event at distance \<open>d\<close>, the estimated
  arrival minutes are \<open>d / 800 * 60\<close> truncated towards zero (the floor, as \<open>d \<ge> 0\<close>);
  the alert's metadata carries the estimate exactly when \<open>d < 500\<close>; when \<open>d < 500\<close> and
  the estimate is at least one minute the user message contains the sentence with that
  number; when \<open>d \<ge> 500\<close> the user message carries no estimate: it is the sentence that
  gives the distance, followed by the action sentence of the severity and the advice of
  the user type, and nothing else. For magnitude 8.0 at 400 km the estimate is 30 and
  the message contains it. The statement is about the loop body at a distance \<open>d\<close>; the
  alerts of the flow are its results at the haversine distances of the events.
\<close>

theorem tsunami_alert_arrival_estimate:
  "(tsunami_alert rt user_lat user_lon ut max_distance_km event d = Some a \<longrightarrow>
      estimated_arrival_minutes (metadata a)
        = (if d < 500 then Some (py_int (d / 800 * 60)) else None)
    \<and> (0 \<le> d \<longrightarrow> py_int (d / 800 * 60) = \<lfloor>d / 800 * 60\<rfloor>)
    \<and> (d < 500 \<and> py_int (d / 800 * 60) \<noteq> 0 \<longrightarrow>
         sublist (''Tsunami waves may arrive in approximately '' @ str_int (py_int (d / 800 * 60))
                    @ '' minutes.'') (user_message a))
    \<and> (500 \<le> d \<longrightarrow>
         user_message a =
           ''TSUNAMI WARNING: Magnitude '' @ float_str rt (ts_magnitude event)
           @ '' earthquake near '' @ ts_location event
           @ '' ('' @ fmt_f 0 d @ ''km away). Tsunami waves possible.''
           @ (if ts_magnitude event \<ge> 7.0 \<and> d < 800
              then '' Move to higher ground as a precaution. Stay away from beaches and coastal areas. Monitor official channels.''
              else '' Stay informed through official channels. Be prepared to evacuate if warning is upgraded.'')
           @ (if ut = ''STUDENT''
              then '' If at school, follow evacuation procedures. Move to upper floors or inland immediately.''
              else if ut = ''FARMER''
              then '' Secure livestock and move to higher ground. Do not attempt to save equipment - prioritize safety.''
              else if ut = ''TRAVELLER''
              then '' Leave coastal hotels immediately. Head inland or to high ground. Do not use elevators.''
              else if ut = ''DELIVERY_WORKER''
              then '' Abandon deliveries. Drive inland immediately. Alert dispatch of your location.''
              else '' Take tsunami warnings seriously. Move quickly but calmly to safety.'')))
   \<and> (\<exists>a. tsunami_alert example_runtime 38 141 ''GENERAL'' 1000 example_tsunami_event 400 = Some a
          \<and> estimated_arrival_minutes (metadata a) = Some 30
          \<and> sublist ''Tsunami waves may arrive in approximately 30 minutes.'' (user_message a))"
proof (intro conjI impI)
  assume a: "tsunami_alert rt user_lat user_lon ut max_distance_km event d = Some a"
  note f = tsunami_alert_fields[OF a]
  show "estimated_arrival_minutes (metadata a)
          = (if d < 500 then Some (py_int (d / 800 * 60)) else None)"
    by (simp add: f(2))
  show "py_int (d / 800 * 60) = \<lfloor>d / 800 * 60\<rfloor>" if "0 \<le> d"
    using that by (simp add: py_int_nonneg)
  show "sublist (''Tsunami waves may arrive in approximately '' @ str_int (py_int (d / 800 * 60))
                    @ '' minutes.'') (user_message a)"
    if "d < 500 \<and> py_int (d / 800 * 60) \<noteq> 0"
    using that generate_tsunami_message_arrival[of "py_int (d / 800 * 60)"] by (simp add: f(3))
  show "user_message a =
           ''TSUNAMI WARNING: Magnitude '' @ float_str rt (ts_magnitude event)
           @ '' earthquake near '' @ ts_location event
           @ '' ('' @ fmt_f 0 d @ ''km away). Tsunami waves possible.''
           @ (if ts_magnitude event \<ge> 7.0 \<and> d < 800
              then '' Move to higher ground as a precaution. Stay away from beaches and coastal areas. Monitor official channels.''
              else '' Stay informed through official channels. Be prepared to evacuate if warning is upgraded.'')
           @ (if ut = ''STUDENT''
              then '' If at school, follow evacuation procedures. Move to upper floors or inland immediately.''
              else if ut = ''FARMER''
              then '' Secure livestock and move to higher ground. Do not attempt to save equipment - prioritize safety.''
              else if ut = ''TRAVELLER''
              then '' Leave coastal hotels immediately. Head inland or to high ground. Do not use elevators.''
              else if ut = ''DELIVERY_WORKER''
              then '' Abandon deliveries. Drive inland immediately. Alert dispatch of your location.''
              else '' Take tsunami warnings seriously. Move quickly but calmly to safety.'')"
    if "500 \<le> d"
    using that
    by (simp add: f(3) generate_tsunami_message_def truthy_def Let_def
          calculate_tsunami_severity_def tsunami_user_advice_def)
next
  from example_tsunami_alert_400 obtain a where
    e: "tsunami_alert example_runtime 38 141 ''GENERAL'' 1000 example_tsunami_event 400 = Some a"
    and m: "estimated_arrival_minutes (metadata a) = Some 30"
    and u: "user_message a = ''TSUNAMI WARNING: Magnitude 8.0 earthquake near 120 km E of Sendai, Japan. Tsunami waves may arrive in approximately 30 minutes. EVACUATE IMMEDIATELY to higher ground (at least 30m above sea level or 3km inland). Do not wait for official evacuation orders. Take tsunami warnings seriously. Move quickly but calmly to safety.''"
    by auto
  have "user_message a = ''TSUNAMI WARNING: Magnitude 8.0 earthquake near 120 km E of Sendai, Japan. ''
          @ ''Tsunami waves may arrive in approximately 30 minutes.''
          @ '' EVACUATE IMMEDIATELY to higher ground (at least 30m above sea level or 3km inland). Do not wait for official evacuation orders. Take tsunami warnings seriously. Move quickly but calmly to safety.''"
    by (simp add: u)
  then have "sublist ''Tsunami waves may arrive in approximately 30 minutes.'' (user_message a)"
    unfolding sublist_def by blast
  with e m show "\<exists>a. tsunami_alert example_runtime 38 141 ''GENERAL'' 1000 example_tsunami_event 400
                        = Some a
          \<and> estimated_arrival_minutes (metadata a) = Some 30
          \<and> sublist ''Tsunami waves may arrive in approximately 30 minutes.'' (user_message a)"
    by auto
qed

theorem tsunami_alert_arrival_estimate_witness:
  "(\<exists>a. tsunami_alert example_runtime 38 141 ''GENERAL'' 1000 example_tsunami_event 410 = Some a
      \<and> estimated_arrival_minutes (metadata a) = Some 30
      \<and> sublist ''Tsunami waves may arrive in approximately 30 minutes.'' (user_message a))
   \<and> (\<exists>b. tsunami_alert example_runtime 38 141 ''GENERAL'' 1000 example_tsunami_event 600 = Some b
      \<and> estimated_arrival_minutes (metadata b) = None
      \<and> user_message b = ''TSUNAMI WARNING: Magnitude 8.0 earthquake near 120 km E of Sendai, Japan (600km away). Tsunami waves possible. Move to higher ground as a precaution. Stay away from beaches and coastal areas. Monitor official channels. Take tsunami warnings seriously. Move quickly but calmly to safety.'')"
proof (intro conjI)
  have "\<exists>a. tsunami_alert example_runtime 38 141 ''GENERAL'' 1000 example_tsunami_event 410 = Some a"
    by (simp add: tsunami_alert_def Let_def)
  then obtain a where
    e: "tsunami_alert example_runtime 38 141 ''GENERAL'' 1000 example_tsunami_event 410 = Some a"
    by auto
  have p: "py_int (410 / 800 * 60) = 30" "str_int 30 = ''30''"
    by (simp_all add: py_int_def str_int_def digits.simps digit_char_def)
  from tsunami_alert_arrival_estimate[where rt = example_runtime and user_lat = 38 and user_lon = 141
      and ut = "''GENERAL''" and max_distance_km = 1000 and event = example_tsunami_event
      and d = 410 and a = a] e p
  show "\<exists>a. tsunami_alert example_runtime 38 141 ''GENERAL'' 1000 example_tsunami_event 410 = Some a
      \<and> estimated_arrival_minutes (metadata a) = Some 30
      \<and> sublist ''Tsunami waves may arrive in approximately 30 minutes.'' (user_message a)"
    by auto
next
  have "\<exists>b. tsunami_alert example_runtime 38 141 ''GENERAL'' 1000 example_tsunami_event 600 = Some b"
    by (simp add: tsunami_alert_def Let_def)
  then obtain b where
    e: "tsunami_alert example_runtime 38 141 ''GENERAL'' 1000 example_tsunami_event 600 = Some b"
    by auto
  have p: "float_str example_runtime (ts_magnitude example_tsunami_event) = ''8.0''"
      "fmt_f 0 600 = ''600''" "ts_location example_tsunami_event = ''120 km E of Sendai, Japan''"
      "ts_magnitude example_tsunami_event = 8"
    by (simp_all add: example_runtime_def example_tsunami_event_def fmt_f_def round_half_even_def
          Let_def digits.simps digit_char_def)
  from tsunami_alert_arrival_estimate[where rt = example_runtime and user_lat = 38 and user_lon = 141
      and ut = "''GENERAL''" and max_distance_km = 1000 and event = example_tsunami_event
      and d = 600 and a = b] e p
  show "\<exists>b. tsunami_alert example_runtime 38 141 ''GENERAL'' 1000 example_tsunami_event 600 = Some b
      \<and> estimated_arrival_minutes (metadata b) = None
      \<and> user_message b = ''TSUNAMI WARNING: Magnitude 8.0 earthquake near 120 km E of Sendai, Japan (600km away). Tsunami waves possible. Move to higher ground as a precaution. Stay away from beaches and coastal areas. Monitor official channels. Take tsunami warnings seriously. Move quickly but calmly to safety.''"
    by auto
qed

text \<open>
  An estimate of zero minutes (below 13.34 km) is passed to the message builder, whose
  test \<^verbatim>\<open>if estimated_arrival_minutes:\<close> takes it for a missing value: the metadata
  carries 0 and the message is the one without an estimate.
\<close>

lemma tsunami_alert_zero_estimate:
  "\<exists>a. tsunami_alert example_runtime 38 141 ''GENERAL'' 1000 example_tsunami_event 5 = Some a
      \<and> estimated_arrival_minutes (metadata a) = Some 0
      \<and> user_message a = generate_tsunami_message example_runtime 8.0 5
            (ts_location example_tsunami_event) ''GENERAL'' ''critical'' None"
  by (simp add: tsunami_alert_def Let_def py_int_def is_coastal_location_def
        calculate_tsunami_severity_def generate_tsunami_message_def truthy_def
        example_tsunami_event_def)

subsection \<open>Seismic flows: the distance field\<close>

lemma round_half_even_close: "\<bar>of_int (round_half_even x) - x\<bar> \<le> 1 / 2"
  unfolding round_half_even_def Let_def by (auto simp: abs_if) linarith+

lemma py_round1_close: "\<bar>py_round1 x - x\<bar> \<le> 1 / 20"
proof -
  have "\<bar>of_int (round_half_even (x * 10)) - x * 10\<bar> \<le> 1 / 2"
    by (rule round_half_even_close)
  then show ?thesis
    unfolding py_round1_def by (simp add: abs_if field_simps split: if_splits)
qed

lemma earthquake_alert_fields:
  assumes "earthquake_alert rt ut max_distance_km eq d = Some a"
  shows "distance_km a = py_round1 d"
    and "location a = \<lparr>description = place eq, lat = latitude eq, lon = longitude eq\<rparr>"
  using assms by (auto simp: earthquake_alert_def Let_def split: if_splits)

lemma example_quake_distance:
  "calculate_distance 0 0 (latitude example_quake) (longitude example_quake) = 6371 * pi / 737280"
proof -
  let ?x = "pi / 1474560"
  have x: "0 \<le> ?x" "?x \<le> pi / 2" "?x \<le> pi" by simp_all
  have "sqrt ((sin ?x)\<^sup>2) = sin ?x"
    using sin_ge_zero[OF x(1) x(3)] by simp
  moreover have "arcsin (sin ?x) = ?x"
    by (rule arcsin_sin) (use x in simp_all)
  ultimately show ?thesis
    by (simp add: calculate_distance_def radians_def Let_def example_quake_def)
qed

lemma example_quake_rounding:
  "py_round1 (6371 * pi / 737280) = 0" "0 < 6371 * pi / 737280" "6371 * pi / 737280 \<le> 1000"
proof -
  let ?y = "6371 * pi / 737280 * 10"
  have b: "0 < ?y" "?y < 1 / 2"
    using pi_gt_zero pi_less_4 by simp_all
  then have "\<lfloor>?y\<rfloor> = 0" by (simp add: floor_eq_iff)
  then have "round_half_even ?y = 0"
    using b unfolding round_half_even_def Let_def by simp
  then show "py_round1 (6371 * pi / 737280) = 0"
    by (simp add: py_round1_def)
  show "0 < 6371 * pi / 737280" by simp
  show "6371 * pi / 737280 \<le> 1000" using pi_less_4 by simp
qed

lemma example_quake_alert:
  "\<exists>a. get_earthquakes_near_location example_runtime [example_quake] 0 0 ''GENERAL'' 1000 = [a]
      \<and> distance_km a = 0"
  using example_quake_rounding
  by (simp add: get_earthquakes_near_location_def Let_def List.map_filter_simps
        example_quake_distance earthquake_alert_def max_def)

text \<open>Bounds on \<open>pi\<close> from the Maclaurin series of the sine, for the rounding of a distance.\<close>

lemma sum_lessThan_12:
  "(\<Sum>m<12. f m)
     = (f 0 + f 1 + f 2 + f 3 + f 4 + f 5 + f 6 + f 7 + f 8 + f 9 + f 10 + f (11::nat) :: real)"
  by (simp add: eval_nat_numeral)

lemma sin_coeff_values:
  "sin_coeff (Suc 0) = 1" "sin_coeff 2 = 0" "sin_coeff 3 = - 1 / 6" "sin_coeff 4 = 0"
  "sin_coeff 5 = 1 / 120" "sin_coeff 6 = 0" "sin_coeff 7 = - 1 / 5040" "sin_coeff 8 = 0"
  "sin_coeff 9 = 1 / 362880" "sin_coeff 10 = 0" "sin_coeff 11 = - 1 / 39916800"
  by (simp_all add: sin_coeff_def fact_numeral)

lemma sin_three_pos: "0 < sin (3 :: real)"
proof -
  have "\<bar>sin (3::real) - (\<Sum>m<12. sin_coeff m * 3 ^ m)\<bar> \<le> inverse (fact 12) * \<bar>3\<bar> ^ 12"
    by (rule Maclaurin_sin_bound)
  moreover have "(\<Sum>m<12. sin_coeff m * (3::real) ^ m) > 1 / 10"
    by (simp add: sum_lessThan_12 sin_coeff_values)
  moreover have "inverse (fact 12) * \<bar>3 :: real\<bar> ^ 12 < 1 / 10"
    by (simp add: fact_numeral)
  ultimately show ?thesis by linarith
qed

lemma sin_sixteen_fifths_neg: "sin (16 / 5 :: real) < 0"
proof -
  have "\<bar>sin (16 / 5 ::real) - (\<Sum>m<12. sin_coeff m * (16 / 5) ^ m)\<bar>
          \<le> inverse (fact 12) * \<bar>16 / 5\<bar> ^ 12"
    by (rule Maclaurin_sin_bound)
  moreover have "(\<Sum>m<12. sin_coeff m * (16 / 5 ::real) ^ m) < - 1 / 100"
    by (simp add: sum_lessThan_12 sin_coeff_values power_divide)
  moreover have "inverse (fact 12) * \<bar>16 / 5 :: real\<bar> ^ 12 < 1 / 100"
    by (simp add: fact_numeral power_divide)
  ultimately show ?thesis by linarith
qed

lemma pi_bounds: "3 < pi" "pi < 16 / 5"
proof -
  show "3 < pi"
  proof (rule ccontr)
    assume "\<not> 3 < pi"
    then have "pi \<le> 3" by simp
    moreover have "(3::real) < 2 * pi" using pi_ge_two by simp
    ultimately have "sin (3::real) \<le> 0" by (rule sin_le_zero)
    with sin_three_pos show False by simp
  qed
  show "pi < 16 / 5"
  proof (rule ccontr)
    assume "\<not> pi < 16 / 5"
    then have "16 / 5 \<le> pi" by simp
    then have "0 \<le> sin (16 / 5 :: real)" by (intro sin_ge_zero) simp_all
    with sin_sixteen_fifths_neg show False by simp
  qed
qed

lemma round_half_even_unique:
  assumes "of_int n - 1 / 2 < x" and "x < of_int n + 1 / 2"
  shows "round_half_even x = n"
proof -
  have f: "of_int \<lfloor>x\<rfloor> \<le> x" "x < of_int \<lfloor>x\<rfloor> + 1" by linarith+
  have "\<lfloor>x\<rfloor> = n \<or> \<lfloor>x\<rfloor> = n - 1" using assms f by linarith
  then show ?thesis
  proof
    assume "\<lfloor>x\<rfloor> = n"
    with assms show ?thesis by (simp add: round_half_even_def Let_def)
  next
    assume "\<lfloor>x\<rfloor> = n - 1"
    with assms show ?thesis by (simp add: round_half_even_def Let_def)
  qed
qed

text \<open>The function of the source is the haversine formula with the radius 6371.\<close>

lemma haversine_formula:
  "calculate_distance lat1 lon1 lat2 lon2
     = 6371 * (2 * arcsin (sqrt
         ((sin ((lat2 * pi / 180 - lat1 * pi / 180) / 2))\<^sup>2
          + cos (lat1 * pi / 180) * cos (lat2 * pi / 180)
            * (sin ((lon2 * pi / 180 - lon1 * pi / 180) / 2))\<^sup>2)))"
  by (simp add: calculate_distance_def radians_def Let_def)

lemma haversine_hundredth_degree:
  "6371 * (2 * arcsin (sqrt
      ((sin ((0 * pi / 180 - 0 * pi / 180) / 2))\<^sup>2
       + cos (0 * pi / 180) * cos (0 * pi / 180)
         * (sin (((1 / 100) * pi / 180 - 0 * pi / 180) / 2))\<^sup>2))) = 6371 * pi / 18000"
  "py_round1 (6371 * pi / 18000) = 11 / 10"
  "6371 * pi / 18000 \<le> 1000"
proof -
  let ?x = "pi / 36000"
  have x: "0 \<le> ?x" "?x \<le> pi / 2" "?x \<le> pi" by simp_all
  have "sqrt ((sin ?x)\<^sup>2) = sin ?x"
    using sin_ge_zero[OF x(1) x(3)] by simp
  moreover have "arcsin (sin ?x) = ?x"
    by (rule arcsin_sin) (use x in simp_all)
  ultimately show "6371 * (2 * arcsin (sqrt
      ((sin ((0 * pi / 180 - 0 * pi / 180) / 2))\<^sup>2
       + cos (0 * pi / 180) * cos (0 * pi / 180)
         * (sin (((1 / 100) * pi / 180 - 0 * pi / 180) / 2))\<^sup>2))) = 6371 * pi / 18000"
    by simp
  have "round_half_even (6371 * pi / 18000 * 10) = 11"
    by (rule round_half_even_unique) (use pi_bounds in simp_all)
  then show "py_round1 (6371 * pi / 18000) = 11 / 10"
    by (simp add: py_round1_def)
  show "6371 * pi / 18000 \<le> 1000" using pi_bounds by simp
qed

lemma example_near_alerts:
  "\<exists>a. get_earthquakes_near_location example_runtime [example_quake_near] 0 0 ''GENERAL'' 1000 = [a]"
  "\<exists>b. get_tsunami_alerts_near_location example_runtime [example_tsunami_near] 0 0 ''GENERAL'' 1000
         = [b]"
proof -
  have d: "calculate_distance 0 0 0 (1 / 100) = 6371 * pi / 18000"
    using haversine_hundredth_degree(1) by (simp add: haversine_formula)
  show "\<exists>a. get_earthquakes_near_location example_runtime [example_quake_near] 0 0 ''GENERAL'' 1000
              = [a]"
    using haversine_hundredth_degree(3)
    by (simp add: get_earthquakes_near_location_def Let_def List.map_filter_simps d
          earthquake_alert_def max_def example_quake_near_def example_quake_def)
  show "\<exists>b. get_tsunami_alerts_near_location example_runtime [example_tsunami_near] 0 0
               ''GENERAL'' 1000 = [b]"
    using haversine_hundredth_degree(3)
    by (simp add: get_tsunami_alerts_near_location_def Let_def List.map_filter_simps d
          tsunami_alert_def sorted_reverse_def example_tsunami_near_def example_tsunami_event_def)
qed

text \<open>
  C9, as stated: the \<^verbatim>\<open>distance_km\<close> field of a seismic alert equals the haversine
  distance from the user to the epicenter. It fails: both flows store
  \<^verbatim>\<open>round(distance, 1)\<close>. For a user at (0, 0) and an earthquake at latitude 0,
  longitude 1/4096 degrees the haversine distance is \<open>6371 * pi / 737280\<close> km, about
  27 metres, and the field is 0.
\<close>

theorem seismic_alert_distance_not_exact:
  "\<exists>a. get_earthquakes_near_location example_runtime [example_quake] 0 0 ''GENERAL'' 1000 = [a]
      \<and> distance_km a = 0
      \<and> calculate_distance 0 0 (latitude example_quake) (longitude example_quake)
          = 6371 * pi / 737280
      \<and> distance_km a \<noteq> calculate_distance 0 0 (latitude example_quake) (longitude example_quake)"
  using example_quake_alert example_quake_rounding(2) by (auto simp: example_quake_distance)

text \<open>
  C9, amended: the \<^verbatim>\<open>distance_km\<close> field of every alert of the earthquake flow and of
  the tsunami flow is the haversine distance from the user to the epicenter of the
  alert's event, on a sphere of radius 6371 km, rounded to one decimal place; it differs
  from that distance by at most 0.05 km. The haversine distance between \<open>(lat1, lon1)\<close>
  and \<open>(lat2, lon2)\<close>, in degrees, is
  \<open>6371 * 2 * arcsin (sqrt (sin\<^sup>2 (dlat / 2) + cos lat1 * cos lat2 * sin\<^sup>2 (dlon / 2)))\<close>
  with the angles in radians.
\<close>

theorem seismic_alert_distance_rounded:
  "(a \<in> set (get_earthquakes_near_location rt earthquakes user_lat user_lon ut max_distance_km)
      \<longrightarrow> (\<exists>eq \<in> set earthquakes.
             location a = \<lparr>description = place eq, lat = latitude eq, lon = longitude eq\<rparr>
           \<and> (let h = 6371 * (2 * arcsin (sqrt
                          ((sin ((latitude eq * pi / 180 - user_lat * pi / 180) / 2))\<^sup>2
                           + cos (user_lat * pi / 180) * cos (latitude eq * pi / 180)
                             * (sin ((longitude eq * pi / 180 - user_lon * pi / 180) / 2))\<^sup>2)))
              in distance_km a = py_round1 h \<and> \<bar>distance_km a - h\<bar> \<le> 1 / 20)))
   \<and> (b \<in> set (get_tsunami_alerts_near_location rt tsunami_events user_lat user_lon ut
                   max_distance_km)
      \<longrightarrow> (\<exists>ev \<in> set tsunami_events.
             location b = \<lparr>description = ts_location ev, lat = ts_latitude ev,
                            lon = ts_longitude ev\<rparr>
           \<and> (let h = 6371 * (2 * arcsin (sqrt
                          ((sin ((ts_latitude ev * pi / 180 - user_lat * pi / 180) / 2))\<^sup>2
                           + cos (user_lat * pi / 180) * cos (ts_latitude ev * pi / 180)
                             * (sin ((ts_longitude ev * pi / 180 - user_lon * pi / 180) / 2))\<^sup>2)))
              in distance_km b = py_round1 h \<and> \<bar>distance_km b - h\<bar> \<le> 1 / 20)))"
proof (intro conjI impI)
  assume "a \<in> set (get_earthquakes_near_location rt earthquakes user_lat user_lon ut
                      max_distance_km)"
  then obtain eq where eq: "eq \<in> set earthquakes"
    and a: "earthquake_alert rt ut max_distance_km eq
              (calculate_distance user_lat user_lon (latitude eq) (longitude eq)) = Some a"
    by (auto simp: get_earthquakes_near_location_def Let_def set_map_filter)
  have "location a = \<lparr>description = place eq, lat = latitude eq, lon = longitude eq\<rparr>
      \<and> (let h = 6371 * (2 * arcsin (sqrt
                     ((sin ((latitude eq * pi / 180 - user_lat * pi / 180) / 2))\<^sup>2
                      + cos (user_lat * pi / 180) * cos (latitude eq * pi / 180)
                        * (sin ((longitude eq * pi / 180 - user_lon * pi / 180) / 2))\<^sup>2)))
         in distance_km a = py_round1 h \<and> \<bar>distance_km a - h\<bar> \<le> 1 / 20)"
    using earthquake_alert_fields[OF a] py_round1_close
    by (simp add: Let_def haversine_formula)
  with eq show "\<exists>eq \<in> set earthquakes.
             location a = \<lparr>description = place eq, lat = latitude eq, lon = longitude eq\<rparr>
           \<and> (let h = 6371 * (2 * arcsin (sqrt
                          ((sin ((latitude eq * pi / 180 - user_lat * pi / 180) / 2))\<^sup>2
                           + cos (user_lat * pi / 180) * cos (latitude eq * pi / 180)
                             * (sin ((longitude eq * pi / 180 - user_lon * pi / 180) / 2))\<^sup>2)))
              in distance_km a = py_round1 h \<and> \<bar>distance_km a - h\<bar> \<le> 1 / 20)"
    by blast
next
  assume "b \<in> set (get_tsunami_alerts_near_location rt tsunami_events user_lat user_lon ut
                      max_distance_km)"
  from tsunami_flow_alert_origin[OF this] obtain ev where ev: "ev \<in> set tsunami_events"
    and b: "tsunami_alert rt user_lat user_lon ut max_distance_km ev
              (calculate_distance user_lat user_lon (ts_latitude ev) (ts_longitude ev)) = Some b"
    by blast
  have "location b = \<lparr>description = ts_location ev, lat = ts_latitude ev,
                         lon = ts_longitude ev\<rparr>
      \<and> (let h = 6371 * (2 * arcsin (sqrt
                     ((sin ((ts_latitude ev * pi / 180 - user_lat * pi / 180) / 2))\<^sup>2
                      + cos (user_lat * pi / 180) * cos (ts_latitude ev * pi / 180)
                        * (sin ((ts_longitude ev * pi / 180 - user_lon * pi / 180) / 2))\<^sup>2)))
         in distance_km b = py_round1 h \<and> \<bar>distance_km b - h\<bar> \<le> 1 / 20)"
    using tsunami_alert_fields(4,5)[OF b] py_round1_close
    by (simp add: Let_def haversine_formula)
  with ev show "\<exists>ev \<in> set tsunami_events.
             location b = \<lparr>description = ts_location ev, lat = ts_latitude ev,
                            lon = ts_longitude ev\<rparr>
           \<and> (let h = 6371 * (2 * arcsin (sqrt
                          ((sin ((ts_latitude ev * pi / 180 - user_lat * pi / 180) / 2))\<^sup>2
                           + cos (user_lat * pi / 180) * cos (ts_latitude ev * pi / 180)
                             * (sin ((ts_longitude ev * pi / 180 - user_lon * pi / 180) / 2))\<^sup>2)))
              in distance_km b = py_round1 h \<and> \<bar>distance_km b - h\<bar> \<le> 1 / 20)"
    by blast
qed

theorem seismic_alert_distance_rounded_witness:
  "(\<exists>a. a \<in> set (get_earthquakes_near_location example_runtime [example_quake_near] 0 0
                    ''GENERAL'' 1000)
       \<and> location a = \<lparr>description = ''Gulf of Guinea'', lat = 0, lon = 1 / 100\<rparr>
       \<and> distance_km a = 11 / 10
       \<and> \<bar>distance_km a - 6371 * pi / 18000\<bar> \<le> 1 / 20)
   \<and> (\<exists>b. b \<in> set (get_tsunami_alerts_near_location example_runtime [example_tsunami_near] 0 0
                    ''GENERAL'' 1000)
       \<and> location b = \<lparr>description = ''120 km E of Sendai, Japan'', lat = 0, lon = 1 / 100\<rparr>
       \<and> distance_km b = 11 / 10
       \<and> \<bar>distance_km b - 6371 * pi / 18000\<bar> \<le> 1 / 20)"
proof (intro conjI)
  from example_near_alerts obtain a where
    a: "a \<in> set (get_earthquakes_near_location example_runtime [example_quake_near] 0 0
                   ''GENERAL'' 1000)"
    by auto
  note t = seismic_alert_distance_rounded[where a = a and b = a and rt = example_runtime
      and earthquakes = "[example_quake_near]" and user_lat = 0 and user_lon = 0
      and ut = "''GENERAL''" and max_distance_km = 1000 and tsunami_events = "[]",
      THEN conjunct1, THEN mp, OF a]
  from t obtain eq where m: "eq \<in> set [example_quake_near]" and
    q: "location a = \<lparr>description = place eq, lat = latitude eq, lon = longitude eq\<rparr>
        \<and> (let h = 6371 * (2 * arcsin (sqrt
                       ((sin ((latitude eq * pi / 180 - 0 * pi / 180) / 2))\<^sup>2
                        + cos (0 * pi / 180) * cos (latitude eq * pi / 180)
                          * (sin ((longitude eq * pi / 180 - 0 * pi / 180) / 2))\<^sup>2)))
           in distance_km a = py_round1 h \<and> \<bar>distance_km a - h\<bar> \<le> 1 / 20)"
    by (rule bexE)
  from m have e: "eq = example_quake_near" by simp
  have fields: "place example_quake_near = ''Gulf of Guinea''"
      "latitude example_quake_near = 0" "longitude example_quake_near = 1 / 100"
    by (simp_all add: example_quake_near_def example_quake_def)
  from q have "location a = \<lparr>description = ''Gulf of Guinea'', lat = 0, lon = 1 / 100\<rparr>
      \<and> distance_km a = py_round1 (6371 * pi / 18000)
      \<and> \<bar>distance_km a - 6371 * pi / 18000\<bar> \<le> 1 / 20"
    unfolding e fields Let_def haversine_hundredth_degree(1) .
  then have "location a = \<lparr>description = ''Gulf of Guinea'', lat = 0, lon = 1 / 100\<rparr>
      \<and> distance_km a = 11 / 10 \<and> \<bar>distance_km a - 6371 * pi / 18000\<bar> \<le> 1 / 20"
    unfolding haversine_hundredth_degree(2) .
  with a show "\<exists>a. a \<in> set (get_earthquakes_near_location example_runtime [example_quake_near] 0 0
                    ''GENERAL'' 1000)
       \<and> location a = \<lparr>description = ''Gulf of Guinea'', lat = 0, lon = 1 / 100\<rparr>
       \<and> distance_km a = 11 / 10
       \<and> \<bar>distance_km a - 6371 * pi / 18000\<bar> \<le> 1 / 20"
    by (intro exI[of _ a] conjI) (elim conjE, assumption)+
next
  from example_near_alerts obtain b where
    b: "b \<in> set (get_tsunami_alerts_near_location example_runtime [example_tsunami_near] 0 0
                   ''GENERAL'' 1000)"
    by auto
  note t = seismic_alert_distance_rounded[where a = b and b = b and rt = example_runtime
      and earthquakes = "[]" and user_lat = 0 and user_lon = 0
      and ut = "''GENERAL''" and max_distance_km = 1000
      and tsunami_events = "[example_tsunami_near]",
      THEN conjunct2, THEN mp, OF b]
  from t obtain ev where m: "ev \<in> set [example_tsunami_near]" and
    q: "location b = \<lparr>description = ts_location ev, lat = ts_latitude ev,
                        lon = ts_longitude ev\<rparr>
        \<and> (let h = 6371 * (2 * arcsin (sqrt
                       ((sin ((ts_latitude ev * pi / 180 - 0 * pi / 180) / 2))\<^sup>2
                        + cos (0 * pi / 180) * cos (ts_latitude ev * pi / 180)
                          * (sin ((ts_longitude ev * pi / 180 - 0 * pi / 180) / 2))\<^sup>2)))
           in distance_km b = py_round1 h \<and> \<bar>distance_km b - h\<bar> \<le> 1 / 20)"
    by (rule bexE)
  from m have e: "ev = example_tsunami_near" by simp
  have fields: "ts_location example_tsunami_near = ''120 km E of Sendai, Japan''"
      "ts_latitude example_tsunami_near = 0" "ts_longitude example_tsunami_near = 1 / 100"
    by (simp_all add: example_tsunami_near_def example_tsunami_event_def)
  from q have "location b = \<lparr>description = ''120 km E of Sendai, Japan'', lat = 0, lon = 1 / 100\<rparr>
      \<and> distance_km b = py_round1 (6371 * pi / 18000)
      \<and> \<bar>distance_km b - 6371 * pi / 18000\<bar> \<le> 1 / 20"
    unfolding e fields Let_def haversine_hundredth_degree(1) .
  then have "location b = \<lparr>description = ''120 km E of Sendai, Japan'', lat = 0, lon = 1 / 100\<rparr>
      \<and> distance_km b = 11 / 10 \<and> \<bar>distance_km b - 6371 * pi / 18000\<bar> \<le> 1 / 20"
    unfolding haversine_hundredth_degree(2) .
  with b show "\<exists>b. b \<in> set (get_tsunami_alerts_near_location example_runtime [example_tsunami_near] 0 0
                    ''GENERAL'' 1000)
       \<and> location b = \<lparr>description = ''120 km E of Sendai, Japan'', lat = 0, lon = 1 / 100\<rparr>
       \<and> distance_km b = 11 / 10
       \<and> \<bar>distance_km b - 6371 * pi / 18000\<bar> \<le> 1 / 20"
    by (intro exI[of _ b] conjI) (elim conjE, assumption)+
qed

subsection \<open>Alert engine: personalization\<close>

text \<open>
  On a non-empty forecast \<^verbatim>\<open>check_alerts\<close> returns, whatever the user type string; every
  returned alert carries the base recommendations of its type followed by the list for
  its user type and alert type, once; for a string that is no user type that list is
  empty and personalization leaves the alerts as they are.
\<close>

lemma py_min_nonempty: "xs \<noteq> [] \<Longrightarrow> \<exists>m. py_min xs = Inr m"
  by (cases xs) simp_all

lemma check_heatwave_returns: "\<exists>r. check_heatwave w fc thr = Inr r"
proof (cases "3 \<le> length (heatwave_scan (take 24 fc) thr [])")
  case True
  then have "map temperature (heatwave_scan (take 24 fc) thr []) \<noteq> []" by auto
  from py_max_nonempty[OF this] True show ?thesis
    by (simp add: check_heatwave_def Let_def bind_result_def new_alert_id_def datetime_now_def)
next
  case False
  then show ?thesis by (simp add: check_heatwave_def Let_def)
qed

lemma check_heavy_rain_returns: "fc \<noteq> [] \<Longrightarrow> \<exists>r. check_heavy_rain w fc thr = Inr r"
proof -
  assume "fc \<noteq> []"
  then have "map precipitation (take 8 fc) \<noteq> []" by simp
  from py_max_nonempty[OF this] show ?thesis
    by (simp add: check_heavy_rain_def Let_def bind_result_def new_alert_id_def datetime_now_def)
qed

lemma check_storm_returns: "\<exists>r. check_storm w fc cw thr = Inr r"
proof -
  let ?p = "storm_scan (take 8 fc) thr (if thr < cw then [(None, cw)] else [])"
  show ?thesis
  proof (cases "?p = []")
    case True
    then show ?thesis by (simp add: check_storm_def Let_def)
  next
    case False
    then have "map snd ?p \<noteq> []" by simp
    from py_max_nonempty[OF this] False show ?thesis
      by (simp add: check_storm_def Let_def bind_result_def new_alert_id_def datetime_now_def)
  qed
qed

lemma check_cold_wave_returns: "\<exists>r. check_cold_wave w fc thr = Inr r"
proof (cases "3 \<le> length (filter (\<lambda>item. temperature item < thr) (take 24 fc))")
  case True
  then have "map temperature (filter (\<lambda>item. temperature item < thr) (take 24 fc)) \<noteq> []"
    by auto
  from py_min_nonempty[OF this] True show ?thesis
    by (auto simp: check_cold_wave_def Let_def bind_result_def new_alert_id_def datetime_now_def)
next
  case False
  then show ?thesis by (simp add: check_cold_wave_def Let_def)
qed

lemma check_high_humidity_returns: "\<exists>r. check_high_humidity w t h thr = Inr r"
  by (simp add: check_high_humidity_def Let_def new_alert_id_def datetime_now_def)

lemma detect_alerts_returns:
  assumes "fc \<noteq> []"
  shows "\<exists>r. detect_alerts w fc ct ch cw thr = Inr r"
proof -
  obtain h w1 where 1: "check_heatwave w fc (heatwave_temp thr) = Inr (h, w1)"
    using check_heatwave_returns by (metis surj_pair)
  obtain r w2 where 2: "check_heavy_rain w1 fc (heavy_rain_amount thr) = Inr (r, w2)"
    using check_heavy_rain_returns[OF assms] by (metis surj_pair)
  obtain s w3 where 3: "check_storm w2 fc cw (high_wind_speed thr) = Inr (s, w3)"
    using check_storm_returns by (metis surj_pair)
  obtain c w4 where 4: "check_cold_wave w3 fc (cold_wave_temp thr) = Inr (c, w4)"
    using check_cold_wave_returns by (metis surj_pair)
  obtain u w5 where 5: "check_high_humidity w4 ct ch (high_humidity thr) = Inr (u, w5)"
    using check_high_humidity_returns by (metis surj_pair)
  show ?thesis
    by (simp add: detect_alerts_def bind_result_def 1 2 3 4 5)
qed

lemma check_alerts_returns:
  assumes "fc \<noteq> []"
  shows "\<exists>alerts w'. check_alerts w fc ct ch cw ut thr = Inr (alerts, w')"
proof -
  from detect_alerts_returns[OF assms] obtain found w' where
    "detect_alerts w fc ct ch cw (case thr of None \<Rightarrow> default_thresholds | Some t \<Rightarrow> t)
       = Inr (found, w')"
    by (metis surj_pair)
  then show ?thesis
    by (simp add: check_alerts_def Let_def bind_result_def)
qed

lemma detector_base_recommendations:
  "check_heatwave w fc thr = Inr (Some a, w') \<Longrightarrow> recommendations a = base_recommendations (alert_type a)"
  "check_heavy_rain w fc thr = Inr (Some a, w') \<Longrightarrow> recommendations a = base_recommendations (alert_type a)"
  "check_storm w fc cw thr = Inr (Some a, w') \<Longrightarrow> recommendations a = base_recommendations (alert_type a)"
  "check_cold_wave w fc thr = Inr (Some a, w') \<Longrightarrow> recommendations a = base_recommendations (alert_type a)"
  "check_high_humidity w t h thr = Inr (Some a, w') \<Longrightarrow> recommendations a = base_recommendations (alert_type a)"
  by (auto simp: check_heatwave_def check_heavy_rain_def check_storm_def check_cold_wave_def
        check_high_humidity_def Let_def bind_result_Inr_iff new_alert_id_def datetime_now_def
        split: if_splits)

lemma detect_alerts_base_recommendations:
  assumes "detect_alerts w fc ct ch cw thr = Inr (alerts, w')" and "a \<in> set alerts"
  shows "recommendations a = base_recommendations (alert_type a)"
proof -
  from assms(1) obtain h w1 r w2 s w3 c w4 u where
    h: "check_heatwave w fc (heatwave_temp thr) = Inr (h, w1)" and
    r: "check_heavy_rain w1 fc (heavy_rain_amount thr) = Inr (r, w2)" and
    s: "check_storm w2 fc cw (high_wind_speed thr) = Inr (s, w3)" and
    c: "check_cold_wave w3 fc (cold_wave_temp thr) = Inr (c, w4)" and
    u: "check_high_humidity w4 ct ch (high_humidity thr) = Inr (u, w')" and
    alerts: "alerts = append_if (append_if (append_if (append_if (append_if [] h) r) s) c) u"
    unfolding detect_alerts_def by (auto simp: bind_result_Inr_iff)
  from assms(2) have "h = Some a \<or> r = Some a \<or> s = Some a \<or> c = Some a \<or> u = Some a"
    unfolding alerts by (auto simp: set_append_if)
  then show ?thesis
    using h r s c u by (auto dest: detector_base_recommendations)
qed

lemma personalize_alert_recommendations:
  "UserType_of_value ut = Inr u \<Longrightarrow>
     recommendations (personalize_alert u a)
       = recommendations a @ personalized_recommendations ut (alert_type a)"
  by (cases "alert_type a")
     (auto simp: UserType_of_value_def personalize_alert_def personalized_recommendations_def
        split: if_splits)

lemma personalized_recommendations_no_user_type:
  "UserType_of_value ut = Inl e \<Longrightarrow> personalized_recommendations ut t = []"
  by (auto simp: UserType_of_value_def personalized_recommendations_def split: if_splits)

lemma check_alerts_recommendations:
  assumes "check_alerts w fc ct ch cw ut thr = Inr (alerts, w')" and "a \<in> set alerts"
  shows "recommendations a
           = base_recommendations (alert_type a) @ personalized_recommendations ut (alert_type a)"
proof -
  from assms(1) obtain found where
    d: "detect_alerts w fc ct ch cw (case thr of None \<Rightarrow> default_thresholds | Some t \<Rightarrow> t)
          = Inr (found, w')" and
    al: "alerts = prioritize_alerts (personalize_alerts found ut)"
    unfolding check_alerts_def Let_def by (auto simp: bind_result_Inr_iff)
  from assms(2) have m: "a \<in> set (personalize_alerts found ut)"
    unfolding al prioritize_alerts_def by simp
  show ?thesis
  proof (cases "UserType_of_value ut")
    case (Inl e)
    with m have "a \<in> set found"
      by (cases e) (simp add: personalize_alerts_def)
    with detect_alerts_base_recommendations[OF d] personalized_recommendations_no_user_type[OF Inl]
    show ?thesis by simp
  next
    case (Inr u)
    with m obtain b where b: "b \<in> set found" "a = personalize_alert u b"
      by (auto simp: personalize_alerts_def)
    with detect_alerts_base_recommendations[OF d b(1)] personalize_alert_recommendations[OF Inr]
    show ?thesis by simp
  qed
qed

lemma unknown_user_type_no_personalization:
  assumes "ut \<noteq> ''STUDENT''" "ut \<noteq> ''FARMER''" "ut \<noteq> ''TRAVELLER''"
    "ut \<noteq> ''DELIVERY_WORKER''" "ut \<noteq> ''GENERAL''"
  shows "personalized_recommendations ut t = []" and "personalize_alerts alerts ut = alerts"
  using assms
  by (simp_all add: personalized_recommendations_def personalize_alerts_def UserType_of_value_def)

text \<open>
  With an empty forecast \<^verbatim>\<open>check_alerts\<close> raises the ValueError of the heavy rain
  detector whatever the user type string, defined or not: the raise comes before
  personalization and is the one of C1.
\<close>

lemma check_alerts_empty_forecast_any_user_type:
  "check_alerts w [] current_temp current_humidity current_wind user thresholds = Inl ValueError"
  by (simp add: check_alerts_def detect_alerts_def check_heatwave_def check_heavy_rain_def
        Let_def bind_result_def)

text \<open>
  C8. On a forecast with at least one point, for every user type string \<^verbatim>\<open>check_alerts\<close>
  returns, and every returned alert carries the base recommendations of its type
  followed, once, by the list that the table holds for the user type and the alert type
  (nothing when the pair has no entry), so the count is the base count plus the
  personalized count. For a string that is none of STUDENT, FARMER, TRAVELLER,
  \<open>DELIVERY_WORKER\<close>, GENERAL the ValueError of \<^verbatim>\<open>UserType(user_type)\<close> is caught,
  personalization returns the alerts unchanged and every returned alert carries exactly
  its base recommendations. The empty forecast is the input of C1.
\<close>

theorem check_alerts_personalization:
  "(forecast \<noteq> [] \<longrightarrow>
      (\<exists>alerts w'.
          check_alerts w forecast current_temp current_humidity current_wind ut thresholds
            = Inr (alerts, w')
        \<and> (\<forall>a \<in> set alerts.
              recommendations a
                = base_recommendations (alert_type a) @ personalized_recommendations ut (alert_type a)
            \<and> length (recommendations a)
                = length (base_recommendations (alert_type a))
                  + length (personalized_recommendations ut (alert_type a))
            \<and> (ut \<notin> {''STUDENT'', ''FARMER'', ''TRAVELLER'', ''DELIVERY_WORKER'', ''GENERAL''}
                 \<longrightarrow> recommendations a = base_recommendations (alert_type a)))))
   \<and> (ut \<notin> {''STUDENT'', ''FARMER'', ''TRAVELLER'', ''DELIVERY_WORKER'', ''GENERAL''}
        \<longrightarrow> personalize_alerts found ut = found
          \<and> (\<forall>t. personalized_recommendations ut t = []))
   \<and> personalized_recommendations ''FARMER'' STORM
        = [''Secure farm equipment'', ''Protect livestock'', ''Check barn structures'']
   \<and> personalized_recommendations ''GENERAL'' HEATWAVE
        = [''Stay indoors during peak hours'', ''Drink plenty of water'']
   \<and> personalized_recommendations ''DELIVERY_WORKER'' HEAVY_RAIN
        = [''Use waterproof packaging'', ''Plan safer routes'']
   \<and> personalized_recommendations ''STUDENT'' COLD_WAVE = []
   \<and> personalized_recommendations ''TRAVELLER'' COLD_WAVE = []"
proof (intro conjI impI)
  assume ne: "forecast \<noteq> []"
  from check_alerts_returns[OF ne] obtain alerts w' where
    r: "check_alerts w forecast current_temp current_humidity current_wind ut thresholds
          = Inr (alerts, w')"
    by blast
  have "\<forall>a \<in> set alerts.
          recommendations a
            = base_recommendations (alert_type a) @ personalized_recommendations ut (alert_type a)
        \<and> length (recommendations a)
            = length (base_recommendations (alert_type a))
              + length (personalized_recommendations ut (alert_type a))
        \<and> (ut \<notin> {''STUDENT'', ''FARMER'', ''TRAVELLER'', ''DELIVERY_WORKER'', ''GENERAL''}
             \<longrightarrow> recommendations a = base_recommendations (alert_type a))"
  proof
    fix a assume a: "a \<in> set alerts"
    note e = check_alerts_recommendations[OF r a]
    have "ut \<notin> {''STUDENT'', ''FARMER'', ''TRAVELLER'', ''DELIVERY_WORKER'', ''GENERAL''}
            \<longrightarrow> personalized_recommendations ut (alert_type a) = []"
      using unknown_user_type_no_personalization(1)[of ut] by simp
    with e show "recommendations a
            = base_recommendations (alert_type a) @ personalized_recommendations ut (alert_type a)
        \<and> length (recommendations a)
            = length (base_recommendations (alert_type a))
              + length (personalized_recommendations ut (alert_type a))
        \<and> (ut \<notin> {''STUDENT'', ''FARMER'', ''TRAVELLER'', ''DELIVERY_WORKER'', ''GENERAL''}
             \<longrightarrow> recommendations a = base_recommendations (alert_type a))"
      by simp
  qed
  with r show "\<exists>alerts w'.
          check_alerts w forecast current_temp current_humidity current_wind ut thresholds
            = Inr (alerts, w')
        \<and> (\<forall>a \<in> set alerts.
              recommendations a
                = base_recommendations (alert_type a) @ personalized_recommendations ut (alert_type a)
            \<and> length (recommendations a)
                = length (base_recommendations (alert_type a))
                  + length (personalized_recommendations ut (alert_type a))
            \<and> (ut \<notin> {''STUDENT'', ''FARMER'', ''TRAVELLER'', ''DELIVERY_WORKER'', ''GENERAL''}
                 \<longrightarrow> recommendations a = base_recommendations (alert_type a)))"
    by blast
next
  assume u: "ut \<notin> {''STUDENT'', ''FARMER'', ''TRAVELLER'', ''DELIVERY_WORKER'', ''GENERAL''}"
  then show "personalize_alerts found ut = found"
    using unknown_user_type_no_personalization(2)[of ut] by simp
  from u show "\<forall>t. personalized_recommendations ut t = []"
    using unknown_user_type_no_personalization(1)[of ut] by simp
qed (simp_all add: personalized_recommendations_def UserType_of_value_def)

theorem check_alerts_personalization_witness:
  "(\<exists>alerts w' a.
       check_alerts example_world [example_point 12 30 60 20] 30 90 120 ''PILOT'' None
         = Inr (alerts, w')
     \<and> a \<in> set alerts \<and> alert_type a = STORM
     \<and> recommendations a
         = [''Stay indoors if possible'', ''Secure loose objects outdoors'',
            ''Avoid areas with trees and power lines'', ''Postpone outdoor activities''])
   \<and> (\<exists>alerts w' a.
       check_alerts example_world [example_point 12 30 60 20] 30 90 120 ''FARMER'' None
         = Inr (alerts, w')
     \<and> a \<in> set alerts \<and> alert_type a = STORM
     \<and> recommendations a
         = [''Stay indoors if possible'', ''Secure loose objects outdoors'',
            ''Avoid areas with trees and power lines'', ''Postpone outdoor activities'',
            ''Secure farm equipment'', ''Protect livestock'', ''Check barn structures'']
     \<and> length (recommendations a) = 4 + 3)"
proof (intro conjI)
  note t = check_alerts_personalization[where forecast = "[example_point 12 30 60 20]"
      and w = example_world and current_temp = 30 and current_humidity = 90
      and current_wind = 120 and ut = "''PILOT''" and thresholds = None and found = "[]"]
  then obtain alerts w' where
    r: "check_alerts example_world [example_point 12 30 60 20] 30 90 120 ''PILOT'' None
          = Inr (alerts, w')"
    and p: "\<forall>a \<in> set alerts. recommendations a = base_recommendations (alert_type a)"
    by auto
  have "map alert_type alerts = [STORM, HEAVY_RAIN, HIGH_HUMIDITY]"
    using r by (simp add: check_alerts_eval example_world_def example_point_def) auto
  then have "STORM \<in> set (map alert_type alerts)" by simp
  then obtain a where a: "a \<in> set alerts" "alert_type a = STORM" by auto
  with p have "recommendations a
         = [''Stay indoors if possible'', ''Secure loose objects outdoors'',
            ''Avoid areas with trees and power lines'', ''Postpone outdoor activities'']"
    by simp
  with r a show "\<exists>alerts w' a.
       check_alerts example_world [example_point 12 30 60 20] 30 90 120 ''PILOT'' None
         = Inr (alerts, w')
     \<and> a \<in> set alerts \<and> alert_type a = STORM
     \<and> recommendations a
         = [''Stay indoors if possible'', ''Secure loose objects outdoors'',
            ''Avoid areas with trees and power lines'', ''Postpone outdoor activities'']"
    by blast
next
  note t = check_alerts_personalization[where forecast = "[example_point 12 30 60 20]"
      and w = example_world and current_temp = 30 and current_humidity = 90
      and current_wind = 120 and ut = "''FARMER''" and thresholds = None and found = "[]"]
  then obtain alerts w' where
    r: "check_alerts example_world [example_point 12 30 60 20] 30 90 120 ''FARMER'' None
          = Inr (alerts, w')"
    and p: "\<forall>a \<in> set alerts. recommendations a
              = base_recommendations (alert_type a)
                @ personalized_recommendations ''FARMER'' (alert_type a)"
    by auto
  from t have f: "personalized_recommendations ''FARMER'' STORM
        = [''Secure farm equipment'', ''Protect livestock'', ''Check barn structures'']"
    by simp
  from example_check_alerts r have "map alert_type alerts = [STORM, HEAVY_RAIN, HIGH_HUMIDITY]"
    by auto
  then have "STORM \<in> set (map alert_type alerts)" by simp
  then obtain a where a: "a \<in> set alerts" "alert_type a = STORM" by auto
  with p f have "recommendations a
         = [''Stay indoors if possible'', ''Secure loose objects outdoors'',
            ''Avoid areas with trees and power lines'', ''Postpone outdoor activities'',
            ''Secure farm equipment'', ''Protect livestock'', ''Check barn structures'']
     \<and> length (recommendations a) = 4 + 3"
    by simp
  with r a show "\<exists>alerts w' a.
       check_alerts example_world [example_point 12 30 60 20] 30 90 120 ''FARMER'' None
         = Inr (alerts, w')
     \<and> a \<in> set alerts \<and> alert_type a = STORM
     \<and> recommendations a
         = [''Stay indoors if possible'', ''Secure loose objects outdoors'',
            ''Avoid areas with trees and power lines'', ''Postpone outdoor activities'',
            ''Secure farm equipment'', ''Protect livestock'', ''Check barn structures'']
     \<and> length (recommendations a) = 4 + 3"
    by blast
qed

end
